theory Spec2Isabelle
  imports Complex_Main "HOL-Library.AList"
begin

section \<open>Data model (planning.py, lines 20-53)\<close>

text \<open>
  The dataclass \<open>Employee\<close>. Contract type and role are Python strings that the code
  compares with literals, so they stay strings here. All numeric fields are Python integers.
\<close>

record employee =
  prenom :: string
  nom :: string
  type_contrat :: string
  jours_semaine :: int
  role :: string
  contraintes_speciales :: "(string \<times> string) list"
  competences :: "string list"
  disponible :: bool
  motif_indisponibilite :: string
  jours_absence :: int
  jours_off_consecutifs :: "bool option"

text \<open>\<open>__post_init__\<close>: the contract type overwrites the contractual days; an unknown
  contract type leaves the field as it was passed.\<close>

definition post_init :: "employee \<Rightarrow> employee" where
  "post_init e =
     (if type_contrat e = ''temps_plein'' then e\<lparr>jours_semaine := 5\<rparr>
      else if type_contrat e = ''mi_temps_4j'' then e\<lparr>jours_semaine := 4\<rparr>
      else if type_contrat e = ''mi_temps_3j'' then e\<lparr>jours_semaine := 3\<rparr>
      else if type_contrat e = ''nuit'' then e\<lparr>jours_semaine := 5\<rparr>
      else e)"

text \<open>The constructor call \<open>Employee(prenom, nom, type_contrat, jours_semaine, role, ...)\<close>
  with the defaults of the optional fields left to the caller.\<close>

definition Employee ::
  "string \<Rightarrow> string \<Rightarrow> string \<Rightarrow> int \<Rightarrow> string \<Rightarrow> bool \<Rightarrow> int \<Rightarrow> employee" where
  "Employee p n tc js r d ja =
     post_init \<lparr>prenom = p, nom = n, type_contrat = tc, jours_semaine = js, role = r,
       contraintes_speciales = [], competences = [], disponible = d,
       motif_indisponibilite = [], jours_absence = ja, jours_off_consecutifs = None\<rparr>"

text \<open>The property \<open>jours_travail_max_semaine\<close>.\<close>

definition jours_travail_max_semaine :: "employee \<Rightarrow> int" where
  "jours_travail_max_semaine e =
     (if \<not> disponible e then 0
      else if jours_absence e \<ge> 7 then 0
      else max 0 (jours_semaine e - jours_absence e))"

section \<open>The planning system (planning.py, lines 59-76)\<close>

text \<open>
  \<open>HotelPlanningSystem.__init__\<close> sets the attributes below once; only \<open>employees\<close> is
  ever reassigned, so the other attributes are constants and the state is the roster.
\<close>

record system =
  employees :: "employee list"

definition clients_per_receptionist :: int where
  "clients_per_receptionist = 50"

definition max_receptionists_per_shift :: int where
  "max_receptionists_per_shift = 4"

definition nb_night_receptionists_required :: int where
  "nb_night_receptionists_required = 2"

datatype jour = Lundi | Mardi | Mercredi | Jeudi | Vendredi | Samedi | Dimanche

datatype shift = Matin | Apres_midi | Nuit

definition jours_de_la_semaine :: "jour list" where
  "jours_de_la_semaine = [Lundi, Mardi, Mercredi, Jeudi, Vendredi, Samedi, Dimanche]"

text \<open>The literal \<open>['matin', 'apres_midi', 'nuit']\<close> that every loop over shifts uses.\<close>

definition les_shifts :: "shift list" where
  "les_shifts = [Matin, Apres_midi, Nuit]"

definition ajouter_employe :: "system \<Rightarrow> employee \<Rightarrow> system" where
  "ajouter_employe sys e = sys\<lparr>employees := employees sys @ [e]\<rparr>"

definition supprimer_employe :: "system \<Rightarrow> string \<Rightarrow> string \<Rightarrow> system" where
  "supprimer_employe sys p n =
     sys\<lparr>employees := filter (\<lambda>e. \<not> (prenom e = p \<and> nom e = n)) (employees sys)\<rparr>"

definition get_employees_disponibles :: "system \<Rightarrow> employee list" where
  "get_employees_disponibles sys = filter disponible (employees sys)"

section \<open>Requirements (calculer_besoins_personnel, lines 78-121)\<close>

text \<open>
  \<open>int(np.ceil(a / b))\<close>: the quotient is a float, rounded up. For the counts the
  program handles (the input widget bounds them by 500) the float quotient rounds to the
  same integer as the exact one, which is what is written here.
\<close>

definition np_ceil_div :: "int \<Rightarrow> int \<Rightarrow> int" where
  "np_ceil_div a b = - ((- a) div b)"

text \<open>\<open>d.get(k, default)\<close> on a forecast dictionary.\<close>

definition dict_get :: "('k \<rightharpoonup> 'v) \<Rightarrow> 'k \<Rightarrow> 'v \<Rightarrow> 'v" where
  "dict_get d k dflt = (case d k of None \<Rightarrow> dflt | Some v \<Rightarrow> v)"

record besoin_shift_jour =
  total_personnel :: int
  min_superviseurs :: int
  concierge :: int

record besoin_shift_nuit =
  receptionists :: int
  superviseurs_nuit :: int
  concierge_nuit :: int

record besoins_jour =
  besoin_matin :: besoin_shift_jour
  besoin_apres_midi :: besoin_shift_jour
  besoin_nuit :: besoin_shift_nuit

text \<open>The body of the loop over the days: the entry \<open>besoins[jour]\<close>.\<close>

definition besoins_du_jour ::
  "system \<Rightarrow> (jour \<rightharpoonup> int) \<Rightarrow> (jour \<rightharpoonup> int) \<Rightarrow> jour \<Rightarrow> besoins_jour" where
  "besoins_du_jour sys checkins checkouts jour =
     (let nb_checkins = dict_get checkins jour 0;
          nb_checkouts = dict_get checkouts jour 0;
          besoin_total_matin = max 1 (np_ceil_div nb_checkouts clients_per_receptionist);
          besoin_total_apres_midi = max 1 (np_ceil_div nb_checkins clients_per_receptionist);
          max_personnel_disponible =
            (if jour \<notin> set [Samedi, Dimanche] then max_receptionists_per_shift - 1
             else max_receptionists_per_shift);
          besoin_total_matin2 = min besoin_total_matin max_personnel_disponible;
          besoin_total_apres_midi2 = min besoin_total_apres_midi max_personnel_disponible;
          total_activite = nb_checkins + nb_checkouts;
          besoin_total_matin3 =
            (if total_activite < 100 then max 1 (besoin_total_matin2 - 1)
             else besoin_total_matin2);
          besoin_total_apres_midi3 =
            (if total_activite < 100 then max 1 (besoin_total_apres_midi2 - 1)
             else besoin_total_apres_midi2)
      in \<lparr>besoin_matin =
            \<lparr>total_personnel = besoin_total_matin3, min_superviseurs = 1,
             concierge = (if jour \<notin> set [Samedi, Dimanche] then 1 else 0)\<rparr>,
          besoin_apres_midi =
            \<lparr>total_personnel = besoin_total_apres_midi3, min_superviseurs = 1,
             concierge = 0\<rparr>,
          besoin_nuit =
            \<lparr>receptionists =
               min nb_night_receptionists_required
                 (int (length (filter (\<lambda>e. role e = ''receptionniste''
                     \<and> type_contrat e = ''nuit'' \<and> disponible e) (employees sys)))),
             superviseurs_nuit = 0, concierge_nuit = 0\<rparr>\<rparr>)"

text \<open>
  The returned dictionary has one entry for each of the seven days of
  \<open>self.jours_semaine\<close> and no other key, so it is a total function on \<open>jour\<close>.
\<close>

definition calculer_besoins_personnel ::
  "system \<Rightarrow> (jour \<rightharpoonup> int) \<Rightarrow> (jour \<rightharpoonup> int) \<Rightarrow> jour \<Rightarrow> besoins_jour" where
  "calculer_besoins_personnel sys checkins checkouts =
     (\<lambda>jour. besoins_du_jour sys checkins checkouts jour)"

section \<open>Feasibility check (verifier_faisabilite_planning, lines 127-169)\<close>

text \<open>The messages appended to \<open>problemes\<close> and \<open>recommandations\<close>, one constructor
  for each string literal of the function.\<close>

datatype message =
  Aucun_superviseur
  | Un_seul_superviseur
  | Aucun_receptionniste_nuit
  | Un_seul_receptionniste_nuit
  | Concierge_indisponible
  | Personnel_jour_insuffisant

record stats_faisabilite =
  total_disponibles :: int
  stat_superviseurs :: int
  stat_receptionnistes_jour :: int
  stat_receptionnistes_nuit :: int
  stat_concierges :: int

record faisabilite =
  faisable :: bool
  problemes :: "message list"
  recommandations :: "message list"
  stats :: stats_faisabilite

definition superviseurs_dispo :: "system \<Rightarrow> employee list" where
  "superviseurs_dispo sys =
     filter (\<lambda>e. role e = ''superviseur'') (get_employees_disponibles sys)"

definition receptionnistes_jour_dispo :: "system \<Rightarrow> employee list" where
  "receptionnistes_jour_dispo sys =
     filter (\<lambda>e. role e = ''receptionniste'' \<and> type_contrat e \<noteq> ''nuit'')
       (get_employees_disponibles sys)"

definition receptionnistes_nuit_dispo :: "system \<Rightarrow> employee list" where
  "receptionnistes_nuit_dispo sys =
     filter (\<lambda>e. role e = ''receptionniste'' \<and> type_contrat e = ''nuit'')
       (get_employees_disponibles sys)"

definition concierges_dispo :: "system \<Rightarrow> employee list" where
  "concierges_dispo sys =
     filter (\<lambda>e. role e = ''concierge'') (get_employees_disponibles sys)"

text \<open>The argument \<open>besoins\<close> of the source function is never read by it.\<close>

definition verifier_faisabilite_planning :: "system \<Rightarrow> faisabilite" where
  "verifier_faisabilite_planning sys =
     (let employes_disponibles = get_employees_disponibles sys;
          n_sup = int (length (superviseurs_dispo sys));
          n_jour = int (length (receptionnistes_jour_dispo sys));
          n_nuit = int (length (receptionnistes_nuit_dispo sys));
          n_conc = int (length (concierges_dispo sys));
          problemes1 = (if n_sup < 1 then [Aucun_superviseur] else []);
          recommandations1 =
            (if n_sup < 1 then [] else if n_sup < 2 then [Un_seul_superviseur] else []);
          problemes2 =
            (if n_nuit < 2
             then (if n_nuit = 0 then problemes1 @ [Aucun_receptionniste_nuit]
                   else problemes1 @ [Un_seul_receptionniste_nuit])
             else problemes1);
          recommandations2 =
            (if n_conc = 0 then recommandations1 @ [Concierge_indisponible]
             else recommandations1);
          total_personnel_jour = n_sup + n_jour;
          problemes3 =
            (if total_personnel_jour < 3 then problemes2 @ [Personnel_jour_insuffisant]
             else problemes2)
      in \<lparr>faisable = (length problemes3 = 0),
          problemes = problemes3,
          recommandations = recommandations2,
          stats = \<lparr>total_disponibles = int (length employes_disponibles),
                   stat_superviseurs = n_sup,
                   stat_receptionnistes_jour = n_jour,
                   stat_receptionnistes_nuit = n_nuit,
                   stat_concierges = n_conc\<rparr>\<rparr>)"

section \<open>The assignment problem (generer_planning_optimise, _ajouter_contraintes, lines 171-302)\<close>

text \<open>
  The decision variables live in the nested dictionary \<open>x[emp.prenom][jour][shift]\<close>. The
  outer key is the first name alone, and the loop that fills the table assigns
  \<open>x[emp.prenom] = {}\<close> for each employee in turn, so a later employee with the same
  first name replaces the entry of an earlier one. Every read of the table happens after
  it is complete; the variable read for an employee is therefore determined by the first
  name, the day and the shift.
\<close>

type_synonym lpvar = "string \<times> jour \<times> shift"

definition x_var :: "employee \<Rightarrow> jour \<Rightarrow> shift \<Rightarrow> lpvar" where
  "x_var emp jour shift = (prenom emp, jour, shift)"

text \<open>
  A constraint added with \<open>prob += lpSum([...]) == k\<close> (or \<open><=\<close>, \<open>>=\<close>): the list of
  the summed variables, with repetitions, the sense and the right-hand side.
\<close>

datatype sens = Egal | Inferieur_egal | Superieur_egal

datatype contrainte = Contrainte "lpvar list" sens int

text \<open>First loop of \<open>_ajouter_contraintes\<close>: unavailable employees.\<close>

definition contraintes_indisponibles :: "system \<Rightarrow> contrainte list" where
  "contraintes_indisponibles sys =
     concat (map (\<lambda>emp.
       if \<not> disponible emp
       then concat (map (\<lambda>jour.
              map (\<lambda>shift. Contrainte [x_var emp jour shift] Egal 0) les_shifts)
            jours_de_la_semaine)
       else []) (employees sys))"

text \<open>Body of the second loop: the coverage constraints of one day and one shift.\<close>

definition contraintes_couverture ::
  "system \<Rightarrow> (jour \<Rightarrow> besoins_jour) \<Rightarrow> jour \<Rightarrow> shift \<Rightarrow> contrainte list" where
  "contraintes_couverture sys besoins jour shift =
     (let employes_disponibles = get_employees_disponibles sys;
          superviseurs = superviseurs_dispo sys;
          receptionnistes_jour = receptionnistes_jour_dispo sys;
          receptionnistes_nuit = receptionnistes_nuit_dispo sys;
          concierges = concierges_dispo sys
      in if shift = Nuit then
           (let nb_requis = min (receptionists (besoin_nuit (besoins jour)))
                                (int (length receptionnistes_nuit));
                autres = filter (\<lambda>e. e \<notin> set receptionnistes_nuit) employes_disponibles
            in (if nb_requis > 0
                then [Contrainte (map (\<lambda>e. x_var e jour shift) receptionnistes_nuit)
                        Egal nb_requis]
                else [])
               @ map (\<lambda>emp. Contrainte [x_var emp jour shift] Egal 0) autres)
         else
           (let nb_besoin =
                  total_personnel (if shift = Matin then besoin_matin (besoins jour)
                                   else besoin_apres_midi (besoins jour));
                personnel_jour_disponible = superviseurs @ receptionnistes_jour;
                nb_possible = min nb_besoin (int (length personnel_jour_disponible));
                tous_employes_jour = personnel_jour_disponible @ concierges
            in (if length superviseurs > 0
                then [Contrainte (map (\<lambda>s. x_var s jour shift) superviseurs)
                        Superieur_egal 1]
                else [])
               @ (if nb_possible > 0
                  then [Contrainte (map (\<lambda>e. x_var e jour shift) receptionnistes_jour
                                    @ map (\<lambda>s. x_var s jour shift) superviseurs)
                          Superieur_egal nb_possible]
                  else [])
               @ (if jour \<notin> set [Samedi, Dimanche] \<and> shift = Matin \<and> length concierges > 0
                  then [Contrainte (map (\<lambda>c. x_var c jour shift) concierges) Egal 1]
                  else map (\<lambda>c. Contrainte [x_var c jour shift] Egal 0) concierges)
               @ (if length tous_employes_jour > 0
                  then [Contrainte (map (\<lambda>e. x_var e jour shift) tous_employes_jour)
                          Inferieur_egal max_receptionists_per_shift]
                  else [])))"

text \<open>Body of the third loop: the constraints of one available employee.\<close>

definition contraintes_employe :: "employee \<Rightarrow> contrainte list" where
  "contraintes_employe emp =
     map (\<lambda>jour. Contrainte (map (\<lambda>shift. x_var emp jour shift) les_shifts)
                   Inferieur_egal 1) jours_de_la_semaine
     @ [Contrainte (concat (map (\<lambda>jour. map (\<lambda>shift. x_var emp jour shift) les_shifts)
                      jours_de_la_semaine))
          Inferieur_egal (jours_travail_max_semaine emp)]
     @ map (\<lambda>i. Contrainte
                  (concat (map (\<lambda>j. map (\<lambda>shift. x_var emp j shift) les_shifts)
                     (take 6 (drop i jours_de_la_semaine))))
                  Inferieur_egal 5)
         [0..<length jours_de_la_semaine - 5]
     @ (if role emp = ''concierge''
        then concat (map (\<lambda>jour.
               [Contrainte [x_var emp jour Nuit] Egal 0,
                Contrainte [x_var emp jour Apres_midi] Egal 0]
               @ (if jour \<in> set [Samedi, Dimanche]
                  then [Contrainte [x_var emp jour Matin] Egal 0] else []))
             jours_de_la_semaine)
        else [])"

definition ajouter_contraintes :: "system \<Rightarrow> (jour \<Rightarrow> besoins_jour) \<Rightarrow> contrainte list" where
  "ajouter_contraintes sys besoins =
     contraintes_indisponibles sys
     @ concat (map (\<lambda>jour.
         concat (map (\<lambda>shift. contraintes_couverture sys besoins jour shift) les_shifts))
       jours_de_la_semaine)
     @ concat (map contraintes_employe (get_employees_disponibles sys))"

text \<open>
  The values of the binary variables after \<open>prob.solve()\<close>: a variable counts as set when
  \<open>varValue == 1\<close>. A constraint holds under such values when the sum of its variables
  stands in the stated relation to the right-hand side.
\<close>

type_synonym valeurs = "lpvar \<Rightarrow> bool"

definition valeur :: "valeurs \<Rightarrow> lpvar \<Rightarrow> int" where
  "valeur x v = (if x v then 1 else 0)"

definition somme :: "valeurs \<Rightarrow> lpvar list \<Rightarrow> int" where
  "somme x vs = sum_list (map (valeur x) vs)"

fun satisfait :: "valeurs \<Rightarrow> contrainte \<Rightarrow> bool" where
  "satisfait x (Contrainte vs Egal k) = (somme x vs = k)"
| "satisfait x (Contrainte vs Inferieur_egal k) = (somme x vs \<le> k)"
| "satisfait x (Contrainte vs Superieur_egal k) = (somme x vs \<ge> k)"

definition satisfait_toutes :: "valeurs \<Rightarrow> contrainte list \<Rightarrow> bool" where
  "satisfait_toutes x cs = list_all (satisfait x) cs"

record affectation =
  aff_prenom :: string
  aff_nom :: string
  aff_role :: string
  aff_type_contrat :: string

type_synonym planning = "jour \<Rightarrow> shift \<Rightarrow> affectation list"

definition extraire_planning :: "system \<Rightarrow> valeurs \<Rightarrow> planning" where
  "extraire_planning sys x =
     (\<lambda>jour shift.
        map (\<lambda>emp. \<lparr>aff_prenom = prenom emp, aff_nom = nom emp, aff_role = role emp,
                     aff_type_contrat = type_contrat emp\<rparr>)
          (filter (\<lambda>emp. x (x_var emp jour shift)) (employees sys)))"

record lp_problem =
  objectif :: "lpvar list"
  contraintes :: "contrainte list"

text \<open>
  \<open>generer_planning_optimise\<close>. The argument \<open>semaine_debut\<close> is never read. The source
  has no \<open>raise\<close> statement and no check of the forecasts; every dictionary read on this
  path is \<open>.get\<close> with a default or a read of a key that the program itself stored. Two
  calls on the path can raise:
  \<^item> the float division \<open>nb / self.clients_per_receptionist\<close> of
    \<open>calculer_besoins_personnel\<close> raises \<open>OverflowError\<close> when the correctly rounded
    quotient is beyond the largest float, that is from \<open>2 ^ 1024 - 2 ^ 970\<close> on;
  \<^item> \<open>prob.solve()\<close> of the PuLP library, which is outside the program, can raise
    \<open>PulpSolverError\<close>. The solver is a parameter here: it receives the problem and
    gives the values of the variables, or fails.
  The status of the solver only triggers a warning; when the solver returns, the
  planning is extracted in every case.
\<close>

datatype erreur = OverflowError | PulpSolverError

definition division_deborde :: "int \<Rightarrow> bool" where
  "division_deborde n = (\<bar>n\<bar> \<ge> clients_per_receptionist * (2 ^ 1024 - 2 ^ 970))"

text \<open>The loop over the days divides the check-outs and then the check-ins of each day.\<close>

definition previsions_debordent :: "(jour \<rightharpoonup> int) \<Rightarrow> (jour \<rightharpoonup> int) \<Rightarrow> bool" where
  "previsions_debordent checkins checkouts =
     list_ex (\<lambda>jour. division_deborde (dict_get checkouts jour 0)
                \<or> division_deborde (dict_get checkins jour 0)) jours_de_la_semaine"

text \<open>A call of \<open>calculer_besoins_personnel\<close> with its outcome: the exception of the
  division, or the returned requirements.\<close>

definition appel_calculer_besoins_personnel ::
  "system \<Rightarrow> (jour \<rightharpoonup> int) \<Rightarrow> (jour \<rightharpoonup> int) \<Rightarrow> erreur + (jour \<Rightarrow> besoins_jour)" where
  "appel_calculer_besoins_personnel sys checkins checkouts =
     (if previsions_debordent checkins checkouts then Inl OverflowError
      else Inr (calculer_besoins_personnel sys checkins checkouts))"

text \<open>The problem handed to the solver: the objective sums every variable of the table,
  the constraints are those of \<open>_ajouter_contraintes\<close>.\<close>

definition construire_probleme :: "system \<Rightarrow> (jour \<Rightarrow> besoins_jour) \<Rightarrow> lp_problem" where
  "construire_probleme sys besoins =
     \<lparr>objectif =
        concat (map (\<lambda>emp. concat (map (\<lambda>jour.
          map (\<lambda>shift. x_var emp jour shift) les_shifts) jours_de_la_semaine))
          (employees sys)),
      contraintes = ajouter_contraintes sys besoins\<rparr>"

definition generer_planning_optimise ::
  "(lp_problem \<Rightarrow> erreur + valeurs) \<Rightarrow> system \<Rightarrow> (jour \<rightharpoonup> int) \<Rightarrow> (jour \<rightharpoonup> int)
     \<Rightarrow> erreur + planning" where
  "generer_planning_optimise solve sys checkins checkouts =
     (case appel_calculer_besoins_personnel sys checkins checkouts of
        Inl e \<Rightarrow> Inl e
      | Inr besoins \<Rightarrow>
          (case solve (construire_probleme sys besoins) of
             Inl e \<Rightarrow> Inl e
           | Inr x \<Rightarrow> Inr (extraire_planning sys x)))"

section \<open>Analysis and validation (analyser_planning, _verifier_violations, lines 304-440)\<close>

text \<open>\<open>any(e['prenom'] == emp.prenom for e in planning[jour][shift])\<close>, for a first name.\<close>

definition travaille :: "planning \<Rightarrow> string \<Rightarrow> jour \<Rightarrow> shift \<Rightarrow> bool" where
  "travaille planning p jour shift = list_ex (\<lambda>e. aff_prenom e = p) (planning jour shift)"

text \<open>
  The counter \<open>jours_travailles\<close>: one for each day with a worked shift. Both
  \<open>analyser_planning\<close> and \<open>_verifier_violations\<close> compute it with the same loops (the
  second one leaves the inner loop at the first worked shift, which gives the same flag).
\<close>

definition nb_jours_travailles :: "planning \<Rightarrow> string \<Rightarrow> int" where
  "nb_jours_travailles planning p =
     sum_list (map (\<lambda>jour.
       if list_ex (\<lambda>shift. travaille planning p jour shift) les_shifts then 1 else 0)
       jours_de_la_semaine)"

text \<open>The counter \<open>heures\<close>: eight hours for each worked shift, night or day.\<close>

definition nb_heures :: "planning \<Rightarrow> string \<Rightarrow> int" where
  "nb_heures planning p =
     sum_list (map (\<lambda>jour.
       sum_list (map (\<lambda>shift.
         if travaille planning p jour shift then (if shift = Nuit then 8 else 8) else 0)
         les_shifts))
       jours_de_la_semaine)"

definition shifts_travailles :: "planning \<Rightarrow> string \<Rightarrow> (jour \<times> shift) list" where
  "shifts_travailles planning p =
     concat (map (\<lambda>jour.
       map (\<lambda>shift. (jour, shift))
         (filter (\<lambda>shift. travaille planning p jour shift) les_shifts))
       jours_de_la_semaine)"

record stats_employe =
  heures :: int
  jours_travailles :: int
  jours_contractuels :: int
  respect_contrat :: bool
  se_role :: string
  se_type_contrat :: string
  shifts :: "(jour \<times> shift) list"

text \<open>The value stored under \<open>f"{emp.prenom} {emp.nom}"\<close> for one employee.\<close>

definition stats_de_employe :: "planning \<Rightarrow> employee \<Rightarrow> stats_employe" where
  "stats_de_employe planning emp =
     \<lparr>heures = nb_heures planning (prenom emp),
      jours_travailles = nb_jours_travailles planning (prenom emp),
      jours_contractuels = jours_semaine emp,
      respect_contrat = (nb_jours_travailles planning (prenom emp) \<le> jours_semaine emp),
      se_role = role emp,
      se_type_contrat = type_contrat emp,
      shifts = shifts_travailles planning (prenom emp)\<rparr>"

definition cle_employe :: "employee \<Rightarrow> string" where
  "cle_employe emp = prenom emp @ '' '' @ nom emp"

text \<open>
  The dictionary \<open>heures_par_employe\<close>, filled in roster order: an assignment to a key
  that is already there replaces the value and keeps the position of the key.
\<close>

definition heures_par_employe_de :: "system \<Rightarrow> planning \<Rightarrow> (string \<times> stats_employe) list" where
  "heures_par_employe_de sys planning =
     fold (\<lambda>emp d. AList.update (cle_employe emp) (stats_de_employe planning emp) d)
       (employees sys) []"

record couverture =
  total :: int
  receptionnistes :: int
  superviseurs :: int
  couv_concierge :: int
  couv_equipe :: "string list"

definition couverture_du_shift :: "planning \<Rightarrow> jour \<Rightarrow> shift \<Rightarrow> couverture" where
  "couverture_du_shift planning jour shift =
     (let eq = planning jour shift
      in \<lparr>total = int (length eq),
          receptionnistes = int (length (filter (\<lambda>e. aff_role e = ''receptionniste'') eq)),
          superviseurs = int (length (filter (\<lambda>e. aff_role e = ''superviseur'') eq)),
          couv_concierge = int (length (filter (\<lambda>e. aff_role e = ''concierge'') eq)),
          couv_equipe = map (\<lambda>e. aff_prenom e @ '' '' @ aff_nom e @ '' ('' @ aff_role e @ '')'') eq\<rparr>)"

text \<open>The violation messages, one constructor for each format string, with the values
  the string interpolates.\<close>

datatype violation =
  V_superviseur jour shift int
  | V_concierge_obligatoire jour shift int
  | V_concierge_apres_midi jour shift
  | V_concierge_weekend jour shift
  | V_maximum jour shift int int
  | V_minimum jour shift int
  | V_nuit_receptionnistes jour int int
  | V_nuit_superviseur jour
  | V_nuit_concierge jour
  | V_contrat string string int int

text \<open>Checks of one day shift (\<open>matin\<close> or \<open>apres_midi\<close>) of one day.\<close>

definition violations_shift_jour :: "planning \<Rightarrow> jour \<Rightarrow> shift \<Rightarrow> violation list" where
  "violations_shift_jour planning jour shift =
     (let eq = planning jour shift;
          nb_superviseurs = int (length (filter (\<lambda>e. aff_role e = ''superviseur'') eq));
          nb_concierges = int (length (filter (\<lambda>e. aff_role e = ''concierge'') eq));
          total = int (length eq)
      in (if nb_superviseurs < 1 then [V_superviseur jour shift nb_superviseurs] else [])
         @ (if jour \<notin> set [Samedi, Dimanche]
            then (if shift = Matin \<and> nb_concierges \<noteq> 1
                  then [V_concierge_obligatoire jour shift nb_concierges]
                  else if shift = Apres_midi \<and> nb_concierges > 0
                  then [V_concierge_apres_midi jour shift]
                  else [])
            else (if nb_concierges > 0 then [V_concierge_weekend jour shift] else []))
         @ (if total > max_receptionists_per_shift
            then [V_maximum jour shift max_receptionists_per_shift total] else [])
         @ (if total < 1 then [V_minimum jour shift total] else []))"

text \<open>Checks of the night of one day.\<close>

definition violations_nuit :: "planning \<Rightarrow> jour \<Rightarrow> violation list" where
  "violations_nuit planning jour =
     (let equipe_nuit = planning jour Nuit;
          nb_receptionists_nuit =
            int (length (filter (\<lambda>e. aff_role e = ''receptionniste'') equipe_nuit));
          nb_superviseurs_nuit =
            int (length (filter (\<lambda>e. aff_role e = ''superviseur'') equipe_nuit));
          nb_concierges_nuit =
            int (length (filter (\<lambda>e. aff_role e = ''concierge'') equipe_nuit))
      in (if nb_receptionists_nuit \<noteq> nb_night_receptionists_required
          then [V_nuit_receptionnistes jour nb_night_receptionists_required
                  nb_receptionists_nuit]
          else [])
         @ (if nb_superviseurs_nuit > 0 then [V_nuit_superviseur jour] else [])
         @ (if nb_concierges_nuit > 0 then [V_nuit_concierge jour] else []))"

text \<open>The contract check of one employee.\<close>

definition violations_employe :: "planning \<Rightarrow> employee \<Rightarrow> violation list" where
  "violations_employe planning emp =
     (let jt = nb_jours_travailles planning (prenom emp)
      in if jt > jours_semaine emp
         then [V_contrat (prenom emp) (nom emp) jt (jours_semaine emp)]
         else [])"

definition verifier_violations :: "system \<Rightarrow> planning \<Rightarrow> violation list" where
  "verifier_violations sys planning =
     concat (map (\<lambda>jour.
       concat (map (\<lambda>shift. violations_shift_jour planning jour shift) [Matin, Apres_midi])
       @ violations_nuit planning jour) jours_de_la_semaine)
     @ concat (map (\<lambda>emp. violations_employe planning emp) (employees sys))"

record statistiques =
  total_shifts_semaine :: int
  total_heures_semaine :: int
  nombre_employes_actifs :: int

record analyse =
  heures_par_employe :: "(string \<times> stats_employe) list"
  couverture_par_shift :: "jour \<Rightarrow> shift \<Rightarrow> couverture"
  violations_contraintes :: "violation list"
  statistiques_globales :: statistiques

definition analyser_planning :: "system \<Rightarrow> planning \<Rightarrow> analyse" where
  "analyser_planning sys planning =
     (let hpe = heures_par_employe_de sys planning;
          total_shifts =
            sum_list (map (\<lambda>jour.
              sum_list (map (\<lambda>shift. int (length (planning jour shift))) les_shifts))
              jours_de_la_semaine)
      in \<lparr>heures_par_employe = hpe,
          couverture_par_shift = couverture_du_shift planning,
          violations_contraintes = verifier_violations sys planning,
          statistiques_globales =
            \<lparr>total_shifts_semaine = total_shifts,
             total_heures_semaine = total_shifts * 8,
             nombre_employes_actifs =
               int (length (filter (\<lambda>(k, d). jours_travailles d > 0) hpe))\<rparr>\<rparr>)"

text \<open>The entry that the report holds for an employee: the lookup of the key.\<close>

definition rapport_employe :: "analyse \<Rightarrow> employee \<Rightarrow> stats_employe option" where
  "rapport_employe a emp = map_of (heures_par_employe a) (cle_employe emp)"

section \<open>Roster edits and notions used in the statements\<close>

text \<open>The assignment \<open>employe_sel.jours_absence = v\<close> of the roster editor, on the
  employee at position \<open>i\<close>.\<close>

definition modifier_jours_absence :: "system \<Rightarrow> nat \<Rightarrow> int \<Rightarrow> system" where
  "modifier_jours_absence sys i a =
     sys\<lparr>employees := (employees sys)[i := (employees sys ! i)\<lparr>jours_absence := a\<rparr>]\<rparr>"

text \<open>The slice \<open>self.jours_semaine[i:i+6]\<close> and the variables that the constraint on
  that window sums.\<close>

definition fenetre :: "nat \<Rightarrow> jour list" where
  "fenetre i = take 6 (drop i jours_de_la_semaine)"

definition variables_fenetre :: "employee \<Rightarrow> nat \<Rightarrow> lpvar list" where
  "variables_fenetre emp i =
     concat (map (\<lambda>j. map (\<lambda>shift. x_var emp j shift) les_shifts) (fenetre i))"

text \<open>The days on which a schedule names an employee: some shift of the day holds an
  entry with the first name and the last name of the employee.\<close>

definition jours_affectes :: "planning \<Rightarrow> employee \<Rightarrow> jour list" where
  "jours_affectes planning emp =
     filter (\<lambda>jour. list_ex (\<lambda>shift.
               list_ex (\<lambda>a. aff_prenom a = prenom emp \<and> aff_nom a = nom emp)
                 (planning jour shift)) les_shifts)
       jours_de_la_semaine"

section \<open>A roster, a forecast and a schedule for the examples\<close>

text \<open>
  Three supervisors, one part-time day receptionist with two days of absence, three night
  receptionists and a concierge who is unavailable; a quiet week with 30 arrivals and 30
  departures a day.
\<close>

definition sophie :: employee where
  "sophie = Employee ''Sophie'' ''Martin'' ''temps_plein'' 5 ''superviseur'' True 0"

definition marc :: employee where
  "marc = Employee ''Marc'' ''Roux'' ''temps_plein'' 5 ''superviseur'' True 0"

definition julie :: employee where
  "julie = Employee ''Julie'' ''Blanc'' ''temps_plein'' 5 ''superviseur'' True 0"

definition emma :: employee where
  "emma = Employee ''Emma'' ''Petit'' ''mi_temps_3j'' 0 ''receptionniste'' True 2"

definition hugo :: employee where
  "hugo = Employee ''Hugo'' ''Durand'' ''nuit'' 5 ''receptionniste'' True 0"

definition nina :: employee where
  "nina = Employee ''Nina'' ''Leroy'' ''nuit'' 5 ''receptionniste'' True 0"

definition omar :: employee where
  "omar = Employee ''Omar'' ''Fabre'' ''nuit'' 5 ''receptionniste'' True 0"

definition carl :: employee where
  "carl = Employee ''Carl'' ''Moreau'' ''temps_plein'' 5 ''concierge'' False 7"

definition equipe :: system where
  "equipe = \<lparr>employees = [sophie, marc, julie, emma, hugo, nina, omar, carl]\<rparr>"

definition semaine_calme :: "jour \<rightharpoonup> int" where
  "semaine_calme = (\<lambda>j. Some 30)"

text \<open>Values of the variables that satisfy every constraint built for this roster: each
  day shift has one supervisor and each night two night receptionists.\<close>

definition affectations :: valeurs where
  "affectations = (\<lambda>(p, j, s).
     (p = ''Sophie'' \<and> s = Matin \<and> j \<in> set [Mardi, Mercredi, Vendredi, Samedi, Dimanche])
     \<or> (p = ''Marc'' \<and> ((s = Matin \<and> j \<in> set [Lundi, Jeudi])
          \<or> (s = Apres_midi \<and> j \<in> set [Mercredi, Samedi, Dimanche])))
     \<or> (p = ''Julie'' \<and> s = Apres_midi \<and> j \<in> set [Lundi, Mardi, Jeudi, Vendredi])
     \<or> (p = ''Hugo'' \<and> s = Nuit \<and> j \<in> set [Mardi, Mercredi, Vendredi, Samedi, Dimanche])
     \<or> (p = ''Nina'' \<and> s = Nuit \<and> j \<in> set [Lundi, Mercredi, Jeudi, Samedi, Dimanche])
     \<or> (p = ''Omar'' \<and> s = Nuit \<and> j \<in> set [Lundi, Mardi, Jeudi, Vendredi]))"

text \<open>A hand-edited variant of the example schedule in which the part-time receptionist,
  who can work one day this week, is put on the mornings of Monday and Tuesday.\<close>

definition affectations_emma :: valeurs where
  "affectations_emma = (\<lambda>v. affectations v
     \<or> v \<in> set [(''Emma'', Lundi, Matin), (''Emma'', Mardi, Matin)])"

text \<open>A second hand-edited variant, with the part-time receptionist on the mornings of
  Monday to Thursday.\<close>

definition affectations_emma_quatre :: valeurs where
  "affectations_emma_quatre = (\<lambda>v. affectations v
     \<or> v \<in> set [(''Emma'', Lundi, Matin), (''Emma'', Mardi, Matin),
                (''Emma'', Mercredi, Matin), (''Emma'', Jeudi, Matin)])"

text \<open>Rosters that differ from the example in one pool each.\<close>

definition equipe_sans_jour :: system where
  "equipe_sans_jour = \<lparr>employees = [sophie, marc, hugo, nina, carl]\<rparr>"

definition equipe_avec_jour :: system where
  "equipe_avec_jour = \<lparr>employees = [sophie, marc, emma, hugo, nina, carl]\<rparr>"

definition equipe_une_nuit :: system where
  "equipe_une_nuit = \<lparr>employees = [sophie, marc, emma, hugo, carl]\<rparr>"

definition equipe_avec_concierge :: system where
  "equipe_avec_concierge =
     \<lparr>employees = [sophie, emma, julie, hugo, nina, carl\<lparr>disponible := True\<rparr>]\<rparr>"

definition equipe_reduite :: system where
  "equipe_reduite = \<lparr>employees = [sophie, hugo]\<rparr>"

text \<open>Two staff members with the same first name and different contracts, and a
  schedule that names the first of them on four mornings.\<close>

definition alex_dupont :: employee where
  "alex_dupont = Employee ''Alex'' ''Dupont'' ''temps_plein'' 5 ''superviseur'' True 0"

definition alex_martin :: employee where
  "alex_martin = Employee ''Alex'' ''Martin'' ''mi_temps_3j'' 3 ''receptionniste'' True 0"

definition equipe_homonymes :: system where
  "equipe_homonymes = \<lparr>employees = [alex_dupont, alex_martin]\<rparr>"

definition planning_homonymes :: planning where
  "planning_homonymes = (\<lambda>jour shift.
     if shift = Matin \<and> jour \<in> set [Lundi, Mardi, Mercredi, Jeudi]
     then [\<lparr>aff_prenom = ''Alex'', aff_nom = ''Dupont'', aff_role = ''superviseur'',
            aff_type_contrat = ''temps_plein''\<rparr>]
     else [])"

text \<open>Forecasts with a missing day and with a negative count, and a solver that answers
  with the example schedule.\<close>

definition semaine_sans_lundi :: "jour \<rightharpoonup> int" where
  "semaine_sans_lundi = (\<lambda>j. if j = Lundi then None else Some 30)"

definition semaine_negative :: "jour \<rightharpoonup> int" where
  "semaine_negative = (\<lambda>j. if j = Mardi then Some (- 5) else Some 30)"

definition solveur_exemple :: "lp_problem \<Rightarrow> erreur + valeurs" where
  "solveur_exemple prob = Inr affectations"

definition solveur_en_panne :: "lp_problem \<Rightarrow> erreur + valeurs" where
  "solveur_en_panne prob = Inl PulpSolverError"

text \<open>A forecast with a count beyond the range of the float division.\<close>

definition semaine_demesuree :: "jour \<rightharpoonup> int" where
  "semaine_demesuree = (\<lambda>j. if j = Mercredi then Some (10 ^ 400) else Some 30)"

section \<open>Auxiliary facts\<close>

lemma np_ceil_div_ceiling: "np_ceil_div a 50 = \<lceil>real_of_int a / 50\<rceil>"
proof -
  have "\<lceil>real_of_int a / real_of_int 50\<rceil> = - ((- a) div 50)"
    by (rule ceiling_divide_eq_div)
  then show ?thesis by (simp add: np_ceil_div_def)
qed

lemma length_filter_list_update:
  "i < length xs \<Longrightarrow> P y = P (xs ! i) \<Longrightarrow>
   length (filter P (xs[i := y])) = length (filter P xs)"
proof (induction xs arbitrary: i)
  case Nil
  then show ?case by simp
next
  case (Cons x xs)
  then show ?case by (cases i) simp_all
qed

lemma pools_modifier_jours_absence:
  assumes "i < length (employees sys)"
  shows "length (superviseurs_dispo (modifier_jours_absence sys i a)) = length (superviseurs_dispo sys)"
    and "length (receptionnistes_jour_dispo (modifier_jours_absence sys i a)) = length (receptionnistes_jour_dispo sys)"
    and "length (receptionnistes_nuit_dispo (modifier_jours_absence sys i a)) = length (receptionnistes_nuit_dispo sys)"
    and "length (concierges_dispo (modifier_jours_absence sys i a)) = length (concierges_dispo sys)"
  using assms
  by (simp_all add: superviseurs_dispo_def receptionnistes_jour_dispo_def
      receptionnistes_nuit_dispo_def concierges_dispo_def get_employees_disponibles_def
      modifier_jours_absence_def length_filter_list_update)

lemma jours_travail_max_mono:
  "a \<le> jours_absence e \<Longrightarrow>
   jours_travail_max_semaine e \<le> jours_travail_max_semaine (e\<lparr>jours_absence := a\<rparr>)"
  by (auto simp add: jours_travail_max_semaine_def)

lemma jour_dans_semaine: "jour \<in> set jours_de_la_semaine"
  by (cases jour) (simp_all add: jours_de_la_semaine_def)

lemma shift_dans_les_shifts: "shift \<in> set les_shifts"
  by (cases shift) (simp_all add: les_shifts_def)

lemma satisfait_toutes_iff: "satisfait_toutes x cs \<longleftrightarrow> (\<forall>c \<in> set cs. satisfait x c)"
  by (simp add: satisfait_toutes_def list_all_iff)

lemma couverture_dans_contraintes:
  "c \<in> set (contraintes_couverture sys besoins jour shift) \<Longrightarrow>
   c \<in> set (ajouter_contraintes sys besoins)"
  using jour_dans_semaine [of jour] shift_dans_les_shifts [of shift]
  by (auto simp add: ajouter_contraintes_def)

lemma employe_dans_contraintes:
  "emp \<in> set (employees sys) \<Longrightarrow> disponible emp \<Longrightarrow> c \<in> set (contraintes_employe emp) \<Longrightarrow>
   c \<in> set (ajouter_contraintes sys besoins)"
  by (auto simp add: ajouter_contraintes_def get_employees_disponibles_def)

lemma indisponible_dans_contraintes:
  "emp \<in> set (employees sys) \<Longrightarrow> \<not> disponible emp \<Longrightarrow>
   Contrainte [x_var emp jour shift] Egal 0 \<in> set (ajouter_contraintes sys besoins)"
proof -
  assume e: "emp \<in> set (employees sys)" and d: "\<not> disponible emp"
  have "Contrainte [x_var emp jour shift] Egal 0
      \<in> (\<lambda>s. Contrainte [x_var emp jour s] Egal 0) ` set les_shifts"
    using shift_dans_les_shifts [of shift] by (rule imageI)
  then have "Contrainte [x_var emp jour shift] Egal 0 \<in> set (contraintes_indisponibles sys)"
    using e d jour_dans_semaine [of jour]
    by (simp add: contraintes_indisponibles_def) blast
  then show ?thesis by (simp add: ajouter_contraintes_def)
qed

lemma satisfait_nul: "satisfait x (Contrainte [v] Egal 0) \<longleftrightarrow> \<not> x v"
  by (simp add: somme_def valeur_def)

text \<open>Night: every employee outside the available night receptionists is forced to 0.\<close>

lemma nuit_autres_force:
  assumes "emp \<in> set (employees sys)"
    and "\<not> (disponible emp \<and> role emp = ''receptionniste'' \<and> type_contrat emp = ''nuit'')"
  shows "Contrainte [x_var emp jour Nuit] Egal 0 \<in> set (ajouter_contraintes sys besoins)"
proof (cases "disponible emp")
  case False
  with assms(1) show ?thesis by (rule indisponible_dans_contraintes)
next
  case True
  with assms have "emp \<in> set (filter (\<lambda>e. e \<notin> set (receptionnistes_nuit_dispo sys))
      (get_employees_disponibles sys))"
    by (auto simp add: receptionnistes_nuit_dispo_def get_employees_disponibles_def)
  then have "Contrainte [x_var emp jour Nuit] Egal 0
      \<in> set (contraintes_couverture sys besoins jour Nuit)"
    by (simp add: contraintes_couverture_def Let_def)
  then show ?thesis by (rule couverture_dans_contraintes)
qed

lemma nuit_somme_requise:
  assumes "0 < min (receptionists (besoin_nuit (besoins jour)))
                 (int (length (receptionnistes_nuit_dispo sys)))"
  shows "Contrainte (map (\<lambda>e. x_var e jour Nuit) (receptionnistes_nuit_dispo sys)) Egal
           (min (receptionists (besoin_nuit (besoins jour)))
                (int (length (receptionnistes_nuit_dispo sys))))
         \<in> set (ajouter_contraintes sys besoins)"
proof -
  have "Contrainte (map (\<lambda>e. x_var e jour Nuit) (receptionnistes_nuit_dispo sys)) Egal
           (min (receptionists (besoin_nuit (besoins jour)))
                (int (length (receptionnistes_nuit_dispo sys))))
         \<in> set (contraintes_couverture sys besoins jour Nuit)"
    using assms by (simp add: contraintes_couverture_def Let_def)
  then show ?thesis by (rule couverture_dans_contraintes)
qed

lemma besoin_nuit_calcule:
  "receptionists (besoin_nuit (calculer_besoins_personnel sys checkins checkouts jour))
     = min 2 (int (length (receptionnistes_nuit_dispo sys)))"
proof -
  have "filter (\<lambda>e. role e = ''receptionniste'' \<and> type_contrat e = ''nuit'' \<and> disponible e)
          (employees sys)
        = receptionnistes_nuit_dispo sys"
    by (auto simp add: receptionnistes_nuit_dispo_def get_employees_disponibles_def
        intro: filter_cong)
  then show ?thesis
    by (simp add: calculer_besoins_personnel_def besoins_du_jour_def Let_def
        nb_night_receptionists_required_def)
qed

lemma valeur_pos: "0 \<le> valeur x v"
  by (simp add: valeur_def)

lemma jour_travaille_le_somme:
  "(if \<exists>s. x (p, j, s) then 1 else 0) \<le> somme x (map (\<lambda>s. (p, j, s)) les_shifts)"
proof -
  have "\<exists>s. x (p, j, s) \<Longrightarrow> x (p, j, Matin) \<or> x (p, j, Apres_midi) \<or> x (p, j, Nuit)"
    by (metis shift.exhaust)
  then show ?thesis
    by (auto simp add: somme_def les_shifts_def valeur_def)
qed

lemma somme_append: "somme x (us @ vs) = somme x us + somme x vs"
  by (simp add: somme_def)

lemma jours_travailles_le_somme:
  "int (length (filter (\<lambda>j. \<exists>s. x (p, j, s)) js))
     \<le> somme x (concat (map (\<lambda>j. map (\<lambda>s. (p, j, s)) les_shifts) js))"
proof (induction js)
  case Nil
  then show ?case by (simp add: somme_def)
next
  case (Cons j js)
  have "int (length (filter (\<lambda>j. \<exists>s. x (p, j, s)) (j # js)))
      = (if \<exists>s. x (p, j, s) then 1 else 0) + int (length (filter (\<lambda>j. \<exists>s. x (p, j, s)) js))"
    by simp
  also have "\<dots> \<le> somme x (map (\<lambda>s. (p, j, s)) les_shifts)
      + somme x (concat (map (\<lambda>j. map (\<lambda>s. (p, j, s)) les_shifts) js))"
    using jour_travaille_le_somme [of x p j] Cons.IH by linarith
  finally show ?case by (simp add: somme_append)
qed

lemma fenetre_dans_contraintes:
  assumes "emp \<in> set (employees sys)" "disponible emp" "i < 2"
  shows "Contrainte (variables_fenetre emp i) Inferieur_egal 5
           \<in> set (ajouter_contraintes sys besoins)"
proof -
  have "i \<in> set [0..<length jours_de_la_semaine - 5]"
    using assms(3) by (simp add: jours_de_la_semaine_def) arith
  then have "Contrainte (variables_fenetre emp i) Inferieur_egal 5
      \<in> set (contraintes_employe emp)"
    unfolding contraintes_employe_def variables_fenetre_def fenetre_def
    by (simp del: upt_Suc set_upt)
  with assms(1,2) show ?thesis by (rule employe_dans_contraintes)
qed

lemma somme_nulle: "(\<forall>v \<in> set vs. \<not> x v) \<Longrightarrow> somme x vs = 0"
  by (induction vs) (simp_all add: somme_def valeur_def)

lemma violations_shift_dans_verifier:
  assumes "shift \<in> {Matin, Apres_midi}"
    and "v \<in> set (violations_shift_jour planning jour shift)"
  shows "v \<in> set (verifier_violations sys planning)"
  using assms jour_dans_semaine [of jour]
  by (auto simp add: verifier_violations_def)

lemma concierge_obligatoire_signale:
  assumes "jour \<notin> {Samedi, Dimanche}"
    and "filter (\<lambda>a. aff_role a = ''concierge'') (planning jour Matin) = []"
  shows "V_concierge_obligatoire jour Matin 0 \<in> set (verifier_violations sys planning)"
proof -
  have "V_concierge_obligatoire jour Matin 0 \<in> set (violations_shift_jour planning jour Matin)"
    using assms by (simp add: violations_shift_jour_def Let_def)
  then show ?thesis
    by (intro violations_shift_dans_verifier) simp_all
qed

lemma concierge_non_disponible:
  assumes "concierges_dispo sys = []" "emp \<in> set (employees sys)" "role emp = ''concierge''"
  shows "\<not> disponible emp"
proof
  assume "disponible emp"
  with assms(2,3) have "emp \<in> set (concierges_dispo sys)"
    by (simp add: concierges_dispo_def get_employees_disponibles_def)
  with assms(1) show False by simp
qed

subsection \<open>The example roster\<close>

lemmas equipe_defs = sophie_def marc_def julie_def emma_def hugo_def nina_def omar_def carl_def
  Employee_def post_init_def

lemma equipe_champs:
  "prenom sophie = ''Sophie''" "role sophie = ''superviseur''" "disponible sophie"
  "prenom marc = ''Marc''" "role marc = ''superviseur''" "disponible marc"
  "prenom julie = ''Julie''" "role julie = ''superviseur''" "disponible julie"
  "prenom emma = ''Emma''" "role emma = ''receptionniste''" "disponible emma"
  "type_contrat emma = ''mi_temps_3j''"
  "prenom hugo = ''Hugo''" "role hugo = ''receptionniste''" "disponible hugo"
  "type_contrat hugo = ''nuit''"
  "prenom nina = ''Nina''" "role nina = ''receptionniste''" "disponible nina"
  "type_contrat nina = ''nuit''"
  "prenom omar = ''Omar''" "role omar = ''receptionniste''" "disponible omar"
  "type_contrat omar = ''nuit''"
  "prenom carl = ''Carl''" "role carl = ''concierge''" "\<not> disponible carl"
  by (simp_all add: equipe_defs)

lemma equipe_jours_max:
  "jours_travail_max_semaine sophie = 5" "jours_travail_max_semaine marc = 5"
  "jours_travail_max_semaine julie = 5" "jours_travail_max_semaine emma = 1"
  "jours_travail_max_semaine hugo = 5" "jours_travail_max_semaine nina = 5"
  "jours_travail_max_semaine omar = 5"
  by (simp_all add: equipe_defs jours_travail_max_semaine_def)

lemma equipe_pools:
  "get_employees_disponibles equipe = [sophie, marc, julie, emma, hugo, nina, omar]"
  "superviseurs_dispo equipe = [sophie, marc, julie]"
  "receptionnistes_jour_dispo equipe = [emma]"
  "receptionnistes_nuit_dispo equipe = [hugo, nina, omar]"
  "concierges_dispo equipe = []"
  by (simp_all add: equipe_def superviseurs_dispo_def receptionnistes_jour_dispo_def
      receptionnistes_nuit_dispo_def concierges_dispo_def get_employees_disponibles_def
      equipe_champs)

lemma equipe_autres:
  "filter (\<lambda>e. e \<notin> set [hugo, nina, omar]) [sophie, marc, julie, emma, hugo, nina, omar]
     = [sophie, marc, julie, emma]"
proof -
  have "e \<notin> set [hugo, nina, omar]" if "type_contrat e \<noteq> ''nuit''" for e
    using that equipe_champs by auto
  moreover have "type_contrat sophie \<noteq> ''nuit''" "type_contrat marc \<noteq> ''nuit''"
    "type_contrat julie \<noteq> ''nuit''" "type_contrat emma \<noteq> ''nuit''"
    by (simp_all add: equipe_defs)
  ultimately show ?thesis by simp
qed

lemma affectations_simps:
  "affectations (''Sophie'', j, s) = (s = Matin \<and> j \<in> set [Mardi, Mercredi, Vendredi, Samedi, Dimanche])"
  "affectations (''Marc'', j, s) = ((s = Matin \<and> j \<in> set [Lundi, Jeudi])
          \<or> (s = Apres_midi \<and> j \<in> set [Mercredi, Samedi, Dimanche]))"
  "affectations (''Julie'', j, s) = (s = Apres_midi \<and> j \<in> set [Lundi, Mardi, Jeudi, Vendredi])"
  "affectations (''Emma'', j, s) = False"
  "affectations (''Hugo'', j, s) = (s = Nuit \<and> j \<in> set [Mardi, Mercredi, Vendredi, Samedi, Dimanche])"
  "affectations (''Nina'', j, s) = (s = Nuit \<and> j \<in> set [Lundi, Mercredi, Jeudi, Samedi, Dimanche])"
  "affectations (''Omar'', j, s) = (s = Nuit \<and> j \<in> set [Lundi, Mardi, Jeudi, Vendredi])"
  "affectations (''Carl'', j, s) = False"
  by (simp_all add: affectations_def)

lemma besoins_calmes:
  "total_personnel (besoin_matin (calculer_besoins_personnel equipe semaine_calme semaine_calme j)) = 1"
  "total_personnel (besoin_apres_midi (calculer_besoins_personnel equipe semaine_calme semaine_calme j)) = 1"
  "receptionists (besoin_nuit (calculer_besoins_personnel equipe semaine_calme semaine_calme j)) = 2"
  by (simp_all add: besoin_nuit_calcule equipe_pools)
    (simp_all add: calculer_besoins_personnel_def besoins_du_jour_def Let_def dict_get_def
      semaine_calme_def np_ceil_div_def clients_per_receptionist_def
      max_receptionists_per_shift_def)

lemma equipe_sat_indisponibles:
  "list_all (satisfait affectations) (contraintes_indisponibles equipe)"
  by (simp add: contraintes_indisponibles_def equipe_def equipe_champs x_var_def
      list_all_iff somme_def valeur_def affectations_simps)

lemma equipe_sat_couverture:
  "list_all (satisfait affectations)
     (contraintes_couverture equipe
        (calculer_besoins_personnel equipe semaine_calme semaine_calme) jour shift)"
  by (cases jour; cases shift)
    (simp_all add: contraintes_couverture_def Let_def equipe_pools equipe_autres
      besoins_calmes equipe_champs x_var_def somme_def valeur_def affectations_simps
      max_receptionists_per_shift_def)

lemma equipe_sat_employes:
  "list_all (satisfait affectations) (contraintes_employe sophie)"
  "list_all (satisfait affectations) (contraintes_employe marc)"
  "list_all (satisfait affectations) (contraintes_employe julie)"
  "list_all (satisfait affectations) (contraintes_employe emma)"
  "list_all (satisfait affectations) (contraintes_employe hugo)"
  "list_all (satisfait affectations) (contraintes_employe nina)"
  "list_all (satisfait affectations) (contraintes_employe omar)"
  by (simp_all add: contraintes_employe_def equipe_champs equipe_jours_max x_var_def
      jours_de_la_semaine_def les_shifts_def somme_def valeur_def affectations_simps
      upt_conv_Cons)

lemma equipe_sat:
  "satisfait_toutes affectations
     (ajouter_contraintes equipe (calculer_besoins_personnel equipe semaine_calme semaine_calme))"
  by (simp add: satisfait_toutes_def ajouter_contraintes_def equipe_sat_indisponibles
      equipe_sat_couverture equipe_sat_employes equipe_pools list_all_iff [of _ "concat _"])
    (simp add: list_all_iff [symmetric] equipe_sat_couverture)

subsection \<open>Analysis and validation\<close>

lemma travaille_iff:
  "travaille planning p jour shift \<longleftrightarrow> (\<exists>a \<in> set (planning jour shift). aff_prenom a = p)"
  by (simp add: travaille_def list_ex_iff)

lemma travaille_extraire:
  "travaille (extraire_planning sys x) p jour shift
     \<longleftrightarrow> p \<in> prenom ` set (employees sys) \<and> x (p, jour, shift)"
  by (auto simp add: travaille_iff extraire_planning_def x_var_def)

lemma pas_de_contrat_shift:
  "V_contrat p n k m \<notin> set (violations_shift_jour planning jour shift)"
  by (simp add: violations_shift_jour_def Let_def)

lemma pas_de_contrat_nuit:
  "V_contrat p n k m \<notin> set (violations_nuit planning jour)"
  by (simp add: violations_nuit_def Let_def)

lemma contrat_dans_verifier:
  "V_contrat p n k m \<in> set (verifier_violations sys planning) \<longleftrightarrow>
     (\<exists>e \<in> set (employees sys). p = prenom e \<and> n = nom e
        \<and> k = nb_jours_travailles planning (prenom e) \<and> m = jours_semaine e \<and> k > m)"
  by (auto simp add: verifier_violations_def pas_de_contrat_shift pas_de_contrat_nuit
      violations_employe_def Let_def)

lemma map_of_fold_update_autre:
  "k \<notin> f ` set xs \<Longrightarrow>
   map_of (fold (\<lambda>e d. AList.update (f e) (g e) d) xs d0) k = map_of d0 k"
  by (induction xs arbitrary: d0) (auto simp add: update_conv')

lemma map_of_fold_update:
  "distinct (map f xs) \<Longrightarrow> e \<in> set xs \<Longrightarrow>
   map_of (fold (\<lambda>e d. AList.update (f e) (g e) d) xs d0) (f e) = Some (g e)"
proof (induction xs arbitrary: d0)
  case Nil
  then show ?case by simp
next
  case (Cons x xs)
  show ?case
  proof (cases "e = x")
    case True
    with Cons.prems have "f e \<notin> f ` set xs" by auto
    then show ?thesis
      using True by (simp add: map_of_fold_update_autre update_conv')
  next
    case False
    with Cons show ?thesis by simp
  qed
qed

lemma rapport_employe_distinct:
  assumes "distinct (map cle_employe (employees sys))" "emp \<in> set (employees sys)"
  shows "rapport_employe (analyser_planning sys planning) emp
           = Some (stats_de_employe planning emp)"
  using map_of_fold_update [OF assms, of "stats_de_employe planning" "[]"]
  by (simp add: rapport_employe_def analyser_planning_def Let_def heures_par_employe_de_def)

lemma post_init_mi_temps_3j:
  "type_contrat emp = ''mi_temps_3j'' \<Longrightarrow> post_init emp = emp \<Longrightarrow> jours_semaine emp = 3"
proof -
  assume t: "type_contrat emp = ''mi_temps_3j''" and p: "post_init emp = emp"
  have "post_init emp = emp\<lparr>jours_semaine := 3\<rparr>"
    using t by (simp add: post_init_def)
  with p have "emp = emp\<lparr>jours_semaine := 3\<rparr>" by simp
  then have "jours_semaine emp = jours_semaine (emp\<lparr>jours_semaine := 3\<rparr>)" by simp
  then show ?thesis by simp
qed

lemma equipe_employes:
  "employees equipe = [sophie, marc, julie, emma, hugo, nina, omar, carl]"
  by (simp add: equipe_def)

lemma equipe_noms:
  "nom sophie = ''Martin''" "nom marc = ''Roux''" "nom julie = ''Blanc''"
  "nom emma = ''Petit''" "nom hugo = ''Durand''" "nom nina = ''Leroy''"
  "nom omar = ''Fabre''" "nom carl = ''Moreau''"
  by (simp_all add: equipe_defs)

lemma equipe_cles_distinctes: "distinct (map cle_employe (employees equipe))"
  by (simp add: equipe_employes cle_employe_def equipe_champs equipe_noms)

lemma emma_contrat:
  "post_init emma = emma" "jours_semaine emma = 3" "jours_absence emma = 2"
  by (simp_all add: emma_def Employee_def post_init_def)

lemma emma_deux_jours:
  "nb_jours_travailles (extraire_planning equipe affectations_emma) ''Emma'' = 2"
  by (simp add: nb_jours_travailles_def travaille_extraire equipe_employes equipe_champs
      affectations_emma_def affectations_simps jours_de_la_semaine_def les_shifts_def)

lemma homonymes_champs:
  "prenom alex_dupont = ''Alex''" "nom alex_dupont = ''Dupont''"
  "jours_semaine alex_dupont = 5"
  "prenom alex_martin = ''Alex''" "nom alex_martin = ''Martin''"
  "jours_semaine alex_martin = 3"
  by (simp_all add: alex_dupont_def alex_martin_def Employee_def post_init_def)

lemma homonymes_quatre_jours:
  "nb_jours_travailles planning_homonymes ''Alex'' = 4"
  "nb_heures planning_homonymes ''Alex'' = 32"
  by (simp_all add: nb_jours_travailles_def nb_heures_def travaille_def planning_homonymes_def
      jours_de_la_semaine_def les_shifts_def)

lemma besoins_semaine_incomplete:
  "calculer_besoins_personnel equipe semaine_sans_lundi semaine_negative
     = calculer_besoins_personnel equipe semaine_calme semaine_calme"
proof
  fix jour
  show "calculer_besoins_personnel equipe semaine_sans_lundi semaine_negative jour
      = calculer_besoins_personnel equipe semaine_calme semaine_calme jour"
    by (simp add: calculer_besoins_personnel_def besoins_du_jour_def Let_def dict_get_def
        semaine_sans_lundi_def semaine_negative_def semaine_calme_def np_ceil_div_def
        clients_per_receptionist_def max_receptionists_per_shift_def)
qed

lemma affectations_emma_simps:
  "affectations_emma (''Sophie'', j, s) = affectations (''Sophie'', j, s)"
  "affectations_emma (''Marc'', j, s) = affectations (''Marc'', j, s)"
  "affectations_emma (''Julie'', j, s) = affectations (''Julie'', j, s)"
  "affectations_emma (''Emma'', j, s) = (s = Matin \<and> j \<in> set [Lundi, Mardi])"
  "affectations_emma (''Hugo'', j, s) = affectations (''Hugo'', j, s)"
  "affectations_emma (''Nina'', j, s) = affectations (''Nina'', j, s)"
  "affectations_emma (''Omar'', j, s) = affectations (''Omar'', j, s)"
  "affectations_emma (''Carl'', j, s) = affectations (''Carl'', j, s)"
  by (auto simp add: affectations_emma_def affectations_simps)

lemma emma_planning:
  "extraire_planning equipe affectations_emma jour shift
     = map (\<lambda>emp. \<lparr>aff_prenom = prenom emp, aff_nom = nom emp, aff_role = role emp,
                     aff_type_contrat = type_contrat emp\<rparr>)
         (filter (\<lambda>emp. affectations_emma (prenom emp, jour, shift))
            [sophie, marc, julie, emma, hugo, nina, omar, carl])"
  by (simp add: extraire_planning_def equipe_employes x_var_def)

lemma emma_violations_jour:
  "violations_shift_jour (extraire_planning equipe affectations_emma) jour Matin
    @ violations_shift_jour (extraire_planning equipe affectations_emma) jour Apres_midi
    @ violations_nuit (extraire_planning equipe affectations_emma) jour
   = (if jour \<notin> set [Samedi, Dimanche] then [V_concierge_obligatoire jour Matin 0] else [])"
  by (cases jour)
    (simp_all add: violations_shift_jour_def violations_nuit_def Let_def emma_planning
      equipe_champs affectations_emma_simps affectations_simps max_receptionists_per_shift_def
      nb_night_receptionists_required_def)

lemma emma_jours_autres:
  "nb_jours_travailles (extraire_planning equipe affectations_emma) ''Sophie'' = 5"
  "nb_jours_travailles (extraire_planning equipe affectations_emma) ''Marc'' = 5"
  "nb_jours_travailles (extraire_planning equipe affectations_emma) ''Julie'' = 4"
  "nb_jours_travailles (extraire_planning equipe affectations_emma) ''Hugo'' = 5"
  "nb_jours_travailles (extraire_planning equipe affectations_emma) ''Nina'' = 5"
  "nb_jours_travailles (extraire_planning equipe affectations_emma) ''Omar'' = 4"
  "nb_jours_travailles (extraire_planning equipe affectations_emma) ''Carl'' = 0"
  by (simp_all add: nb_jours_travailles_def travaille_extraire equipe_employes equipe_champs
      affectations_emma_simps affectations_simps jours_de_la_semaine_def les_shifts_def)

lemma equipe_jours_contractuels:
  "jours_semaine sophie = 5" "jours_semaine marc = 5" "jours_semaine julie = 5"
  "jours_semaine hugo = 5" "jours_semaine nina = 5" "jours_semaine omar = 5"
  "jours_semaine carl = 5"
  by (simp_all add: equipe_defs)

lemma emma_violations:
  "verifier_violations equipe (extraire_planning equipe affectations_emma)
     = [V_concierge_obligatoire Lundi Matin 0, V_concierge_obligatoire Mardi Matin 0,
        V_concierge_obligatoire Mercredi Matin 0, V_concierge_obligatoire Jeudi Matin 0,
        V_concierge_obligatoire Vendredi Matin 0]"
proof -
  have e: "concat (map (\<lambda>emp. violations_employe (extraire_planning equipe affectations_emma) emp)
      (employees equipe)) = []"
    by (simp add: violations_employe_def Let_def equipe_employes equipe_champs emma_deux_jours
        emma_contrat emma_jours_autres equipe_jours_contractuels)
  show ?thesis
    unfolding verifier_violations_def e
    by (simp add: emma_violations_jour jours_de_la_semaine_def)
qed

subsection \<open>Facts for the revised statements\<close>

lemma pools_explicites:
  "superviseurs_dispo sys
     = filter (\<lambda>e. disponible e \<and> role e = ''superviseur'') (employees sys)"
  "receptionnistes_jour_dispo sys
     = filter (\<lambda>e. disponible e \<and> role e = ''receptionniste'' \<and> type_contrat e \<noteq> ''nuit'')
         (employees sys)"
  "receptionnistes_nuit_dispo sys
     = filter (\<lambda>e. disponible e \<and> role e = ''receptionniste'' \<and> type_contrat e = ''nuit'')
         (employees sys)"
  "concierges_dispo sys
     = filter (\<lambda>e. disponible e \<and> role e = ''concierge'') (employees sys)"
  by (simp_all add: superviseurs_dispo_def receptionnistes_jour_dispo_def
      receptionnistes_nuit_dispo_def concierges_dispo_def get_employees_disponibles_def)

lemma length_filter_le_sum:
  "(\<And>x. P x \<Longrightarrow> Q x) \<Longrightarrow>
   int (length (filter P xs)) \<le> sum_list (map (\<lambda>x. if Q x then 1 else 0) xs)"
  by (induction xs) auto

lemma jours_affectes_le_travailles:
  "int (length (jours_affectes planning emp)) \<le> nb_jours_travailles planning (prenom emp)"
  unfolding jours_affectes_def nb_jours_travailles_def
  by (rule length_filter_le_sum) (auto simp add: list_ex_iff travaille_def)

lemma jours_affectes_extraire:
  assumes "emp \<in> set (employees sys)"
  shows "jours_affectes (extraire_planning sys x) emp
           = filter (\<lambda>jour. list_ex (\<lambda>shift. x (prenom emp, jour, shift)) les_shifts)
               jours_de_la_semaine"
  unfolding jours_affectes_def
  using assms by (intro filter_cong) (auto simp add: extraire_planning_def x_var_def list_ex_iff)

lemma emma_quatre_jours:
  "jours_affectes (extraire_planning equipe affectations_emma_quatre) emma
     = [Lundi, Mardi, Mercredi, Jeudi]"
  "nb_jours_travailles (extraire_planning equipe affectations_emma_quatre) ''Emma'' = 4"
proof -
  have e: "emma \<in> set (employees equipe)" by (simp add: equipe_employes)
  have a: "affectations_emma_quatre (''Emma'', j, s)
      = (s = Matin \<and> j \<in> set [Lundi, Mardi, Mercredi, Jeudi])" for j s
    by (auto simp add: affectations_emma_quatre_def affectations_simps)
  show "jours_affectes (extraire_planning equipe affectations_emma_quatre) emma
      = [Lundi, Mardi, Mercredi, Jeudi]"
    by (simp add: jours_affectes_extraire [OF e] equipe_champs a jours_de_la_semaine_def
        les_shifts_def)
  show "nb_jours_travailles (extraire_planning equipe affectations_emma_quatre) ''Emma'' = 4"
    by (simp add: nb_jours_travailles_def travaille_extraire equipe_employes equipe_champs a
        jours_de_la_semaine_def les_shifts_def)
qed

lemma emma_deux_jours_affectes:
  "jours_affectes (extraire_planning equipe affectations_emma) emma = [Lundi, Mardi]"
proof -
  have e: "emma \<in> set (employees equipe)" by (simp add: equipe_employes)
  show ?thesis
    by (simp add: jours_affectes_extraire [OF e] equipe_champs affectations_emma_simps
        jours_de_la_semaine_def les_shifts_def)
qed

lemma dict_get_jour_manquant:
  "d jour = None \<Longrightarrow> dict_get (d(jour \<mapsto> 0)) j 0 = dict_get d j 0"
  by (simp add: dict_get_def)

lemma besoins_jour_manquant:
  "checkins jour = None \<Longrightarrow>
   calculer_besoins_personnel sys (checkins(jour \<mapsto> 0)) checkouts
     = calculer_besoins_personnel sys checkins checkouts"
  "checkouts jour = None \<Longrightarrow>
   calculer_besoins_personnel sys checkins (checkouts(jour \<mapsto> 0))
     = calculer_besoins_personnel sys checkins checkouts"
  by (simp_all only: calculer_besoins_personnel_def besoins_du_jour_def dict_get_jour_manquant)

lemma debordement_jour_manquant:
  "checkins jour = None \<Longrightarrow>
   previsions_debordent (checkins(jour \<mapsto> 0)) checkouts = previsions_debordent checkins checkouts"
  "checkouts jour = None \<Longrightarrow>
   previsions_debordent checkins (checkouts(jour \<mapsto> 0)) = previsions_debordent checkins checkouts"
  by (simp_all only: previsions_debordent_def dict_get_jour_manquant)

lemma generer_jour_manquant:
  "checkins jour = None \<Longrightarrow>
   generer_planning_optimise solve sys (checkins(jour \<mapsto> 0)) checkouts
     = generer_planning_optimise solve sys checkins checkouts"
  "checkouts jour = None \<Longrightarrow>
   generer_planning_optimise solve sys checkins (checkouts(jour \<mapsto> 0))
     = generer_planning_optimise solve sys checkins checkouts"
  by (simp_all only: generer_planning_optimise_def appel_calculer_besoins_personnel_def
      besoins_jour_manquant debordement_jour_manquant)

lemma exemples_debordement:
  "\<not> previsions_debordent semaine_sans_lundi semaine_negative"
  "previsions_debordent semaine_demesuree semaine_calme"
  by (simp_all add: previsions_debordent_def division_deborde_def dict_get_def
      semaine_sans_lundi_def semaine_negative_def semaine_demesuree_def semaine_calme_def
      jours_de_la_semaine_def clients_per_receptionist_def)

section \<open>Claims\<close>

text \<open>
  Claim C1, as amended. For every roster and every schedule, if an employee of the roster
  has the contract \<open>mi_temps_3j\<close> (three contractual days, as the constructor sets them)
  and two days of absence (so one workable day), and the schedule names the employee on
  more than 3 distinct days, then the validator flags the employee: the flag
  \<open>respect_contrat\<close> that \<open>analyser_planning\<close> computes for the employee is false, and
  \<open>_verifier_violations\<close> emits a contract violation with the names of the employee
  against the maximum 3. When no two employees of the roster share the key "first name,
  space, last name", the report holds that flag under the key of the employee.
\<close>

theorem C1_respect_contrat:
  assumes "emp \<in> set (employees sys)"
    and "type_contrat emp = ''mi_temps_3j''"
    and "post_init emp = emp"
    and "disponible emp"
    and "jours_absence emp = 2"
    and "int (length (jours_affectes planning emp)) > 3"
  shows "jours_travail_max_semaine emp = 1
       \<and> \<not> respect_contrat (stats_de_employe planning emp)
       \<and> V_contrat (prenom emp) (nom emp) (nb_jours_travailles planning (prenom emp)) 3
            \<in> set (verifier_violations sys planning)
       \<and> (distinct (map cle_employe (employees sys)) \<longrightarrow>
            map_option respect_contrat (rapport_employe (analyser_planning sys planning) emp)
              = Some False)"
proof -
  have j: "jours_semaine emp = 3"
    using assms(2,3) by (rule post_init_mi_temps_3j)
  have m: "jours_travail_max_semaine emp = 1"
    using assms(4,5) j by (simp add: jours_travail_max_semaine_def)
  have n: "nb_jours_travailles planning (prenom emp) > 3"
    using assms(6) jours_affectes_le_travailles [of planning emp] by linarith
  have r: "\<not> respect_contrat (stats_de_employe planning emp)"
    using j n by (simp add: stats_de_employe_def)
  have v: "V_contrat (prenom emp) (nom emp) (nb_jours_travailles planning (prenom emp)) 3
      \<in> set (verifier_violations sys planning)"
    unfolding contrat_dans_verifier using assms(1) j n by auto
  have d: "map_option respect_contrat (rapport_employe (analyser_planning sys planning) emp)
      = Some False"
    if "distinct (map cle_employe (employees sys))"
    using rapport_employe_distinct [OF that assms(1), of planning] r by simp
  show ?thesis using m r v d by blast
qed

text \<open>The amended claim at the example roster: the receptionist with two days of absence,
  named on the mornings of Monday to Thursday, is flagged in the report and by a
  violation "4 days instead of 3".\<close>

theorem C1_witness:
  "emma \<in> set (employees equipe)
   \<and> type_contrat emma = ''mi_temps_3j''
   \<and> post_init emma = emma
   \<and> disponible emma \<and> jours_absence emma = 2
   \<and> jours_affectes (extraire_planning equipe affectations_emma_quatre) emma
       = [Lundi, Mardi, Mercredi, Jeudi]
   \<and> distinct (map cle_employe (employees equipe))
   \<and> jours_travail_max_semaine emma = 1
   \<and> \<not> respect_contrat
         (stats_de_employe (extraire_planning equipe affectations_emma_quatre) emma)
   \<and> V_contrat ''Emma'' ''Petit'' 4 3
        \<in> set (verifier_violations equipe (extraire_planning equipe affectations_emma_quatre))
   \<and> map_option respect_contrat
        (rapport_employe
           (analyser_planning equipe (extraire_planning equipe affectations_emma_quatre)) emma)
        = Some False"
proof -
  have h1: "emma \<in> set (employees equipe)" by (simp add: equipe_employes)
  have h2: "type_contrat emma = ''mi_temps_3j''" by (simp add: equipe_champs)
  have h3: "post_init emma = emma" by (rule emma_contrat)
  have h4: "disponible emma" by (simp add: equipe_champs)
  have h5: "jours_absence emma = 2" by (rule emma_contrat)
  have h6: "int (length (jours_affectes
      (extraire_planning equipe affectations_emma_quatre) emma)) > 3"
    by (simp add: emma_quatre_jours)
  note t = C1_respect_contrat [OF h1 h2 h3 h4 h5 h6]
  note t1 = t [THEN conjunct1]
  note t2 = t [THEN conjunct2, THEN conjunct1]
  have t3: "V_contrat ''Emma'' ''Petit'' 4 3
      \<in> set (verifier_violations equipe (extraire_planning equipe affectations_emma_quatre))"
    using t [THEN conjunct2, THEN conjunct2, THEN conjunct1]
    by (simp add: equipe_champs equipe_noms emma_quatre_jours)
  note t4 = t [THEN conjunct2, THEN conjunct2, THEN conjunct2, rule_format,
      OF equipe_cles_distinctes]
  show ?thesis
    by (intro conjI h1 h2 h3 h4 h5 emma_quatre_jours(1) equipe_cles_distinctes t1 t2 t3 t4)
qed

text \<open>
  The claim as stated fails: the part-time receptionist of the example, available, with
  two days of absence and hence one workable day, is scheduled on two distinct days, and
  the analysis reports \<open>respect_contrat\<close> true and the validation emits the five
  concierge violations of the week and no contract violation.
\<close>

theorem C1_counterexample:
  "emma \<in> set (employees equipe)
   \<and> type_contrat emma = ''mi_temps_3j''
   \<and> jours_absence emma = 2
   \<and> jours_travail_max_semaine emma = 1
   \<and> jours_affectes (extraire_planning equipe affectations_emma) emma = [Lundi, Mardi]
   \<and> nb_jours_travailles (extraire_planning equipe affectations_emma) ''Emma'' = 2
   \<and> map_option respect_contrat
        (rapport_employe
           (analyser_planning equipe (extraire_planning equipe affectations_emma)) emma)
        = Some True
   \<and> verifier_violations equipe (extraire_planning equipe affectations_emma)
       = [V_concierge_obligatoire Lundi Matin 0, V_concierge_obligatoire Mardi Matin 0,
          V_concierge_obligatoire Mercredi Matin 0, V_concierge_obligatoire Jeudi Matin 0,
          V_concierge_obligatoire Vendredi Matin 0]"
proof -
  have a: "emma \<in> set (employees equipe)" by (simp add: equipe_employes)
  have b: "type_contrat emma = ''mi_temps_3j''" by (simp add: equipe_champs)
  have c: "jours_absence emma = 2" by (rule emma_contrat)
  have d: "jours_travail_max_semaine emma = 1" by (rule equipe_jours_max)
  have r: "map_option respect_contrat
      (rapport_employe
         (analyser_planning equipe (extraire_planning equipe affectations_emma)) emma)
      = Some True"
    by (simp add: rapport_employe_distinct [OF equipe_cles_distinctes a]
        stats_de_employe_def equipe_champs emma_deux_jours emma_contrat)
  show ?thesis
    by (intro conjI a b c d emma_deux_jours_affectes emma_deux_jours r emma_violations)
qed

text \<open>
  Claim C2, as amended. For every roster with no available concierge and every weekday,
  the requirements still ask for one concierge in the morning; every valuation that
  satisfies the constraint set puts no concierge in that slot; and the validator, which
  does not look at availability, reports the violation "concierge required (found 0)"
  for that morning.
\<close>

theorem C2_concierge_absent:
  assumes "concierges_dispo sys = []"
    and "jour \<notin> {Samedi, Dimanche}"
  shows "concierge (besoin_matin (calculer_besoins_personnel sys checkins checkouts jour)) = 1
       \<and> (\<forall>x. satisfait_toutes x
                 (ajouter_contraintes sys (calculer_besoins_personnel sys checkins checkouts))
            \<longrightarrow> filter (\<lambda>a. aff_role a = ''concierge'') (extraire_planning sys x jour Matin) = []
              \<and> V_concierge_obligatoire jour Matin 0
                  \<in> set (verifier_violations sys (extraire_planning sys x)))"
proof -
  have b: "concierge (besoin_matin (calculer_besoins_personnel sys checkins checkouts jour)) = 1"
    using assms(2)
    by (simp add: calculer_besoins_personnel_def besoins_du_jour_def Let_def)
  have e: "filter (\<lambda>a. aff_role a = ''concierge'') (extraire_planning sys x jour Matin) = []"
    if sat: "satisfait_toutes x
        (ajouter_contraintes sys (calculer_besoins_personnel sys checkins checkouts))" for x
  proof -
    have "\<not> x (x_var emp jour Matin)"
      if "emp \<in> set (employees sys)" "role emp = ''concierge''" for emp
    proof -
      have "\<not> disponible emp"
        using assms(1) that by (rule concierge_non_disponible)
      then have "satisfait x (Contrainte [x_var emp jour Matin] Egal 0)"
        using indisponible_dans_contraintes [OF that(1), of jour Matin] sat
        unfolding satisfait_toutes_iff by blast
      then show ?thesis by (simp add: somme_def valeur_def split: if_splits)
    qed
    then show ?thesis
      by (auto simp add: extraire_planning_def filter_empty_conv)
  qed
  show ?thesis
    using b e concierge_obligatoire_signale [OF assms(2)] by blast
qed

text \<open>The amended claim at the example roster, on Monday, with the schedule of the
  example.\<close>

theorem C2_witness:
  "concierges_dispo equipe = []
   \<and> Lundi \<notin> {Samedi, Dimanche}
   \<and> satisfait_toutes affectations
        (ajouter_contraintes equipe (calculer_besoins_personnel equipe semaine_calme semaine_calme))
   \<and> concierge (besoin_matin (calculer_besoins_personnel equipe semaine_calme semaine_calme Lundi)) = 1
   \<and> filter (\<lambda>a. aff_role a = ''concierge'') (extraire_planning equipe affectations Lundi Matin) = []
   \<and> V_concierge_obligatoire Lundi Matin 0
        \<in> set (verifier_violations equipe (extraire_planning equipe affectations))"
proof -
  have h1: "concierges_dispo equipe = []" by (rule equipe_pools)
  have h2: "Lundi \<notin> {Samedi, Dimanche}" by simp
  show ?thesis
    using C2_concierge_absent [OF h1 h2, of semaine_calme semaine_calme] equipe_sat h1 h2
    by blast
qed

text \<open>
  The claim as stated fails: at the example roster, where the only concierge is
  unavailable, the schedule satisfies every constraint and the validator still reports
  a concierge violation on Monday morning.
\<close>

theorem C2_counterexample:
  "length (concierges_dispo equipe) = 0
   \<and> satisfait_toutes affectations
        (ajouter_contraintes equipe (calculer_besoins_personnel equipe semaine_calme semaine_calme))
   \<and> violations_shift_jour (extraire_planning equipe affectations) Lundi Matin
        = [V_concierge_obligatoire Lundi Matin 0]"
proof -
  have e: "employees equipe = [sophie, marc, julie, emma, hugo, nina, omar, carl]"
    by (simp add: equipe_def)
  have p: "extraire_planning equipe affectations Lundi Matin
      = [\<lparr>aff_prenom = ''Marc'', aff_nom = nom marc, aff_role = ''superviseur'',
          aff_type_contrat = type_contrat marc\<rparr>]"
    by (simp add: extraire_planning_def e x_var_def equipe_champs affectations_simps)
  have v: "violations_shift_jour (extraire_planning equipe affectations) Lundi Matin
      = [V_concierge_obligatoire Lundi Matin 0]"
    by (simp add: violations_shift_jour_def Let_def p max_receptionists_per_shift_def)
  have c: "length (concierges_dispo equipe) = 0"
    by (simp add: equipe_pools)
  show ?thesis
    by (intro conjI c v equipe_sat)
qed

text \<open>
  Claim C3. For every day and all forecast counts (a day missing from a forecast counts
  as 0), the morning total is \<open>max(1, ceil(checkouts / 50))\<close> and the afternoon total
  \<open>max(1, ceil(checkins / 50))\<close>, each capped at 4 on Saturday and Sunday and at 3 on
  weekdays, and then reduced by one, not below 1, when check-ins plus check-outs are
  under 100. With no arrival and no departure on a weekday both totals are 1; with 300
  of each on a Saturday both are 4.
\<close>

theorem C3_besoins_formule:
  "let ci = dict_get checkins jour 0;
       co = dict_get checkouts jour 0;
       cap = (if jour \<in> {Samedi, Dimanche} then 4 else 3);
       b = calculer_besoins_personnel sys checkins checkouts jour
   in total_personnel (besoin_matin b) =
        (if ci + co < 100 then max 1 (min (max 1 \<lceil>real_of_int co / 50\<rceil>) cap - 1)
         else min (max 1 \<lceil>real_of_int co / 50\<rceil>) cap)
      \<and> total_personnel (besoin_apres_midi b) =
        (if ci + co < 100 then max 1 (min (max 1 \<lceil>real_of_int ci / 50\<rceil>) cap - 1)
         else min (max 1 \<lceil>real_of_int ci / 50\<rceil>) cap)
      \<and> (ci = 0 \<and> co = 0 \<and> jour \<notin> {Samedi, Dimanche} \<longrightarrow>
           total_personnel (besoin_matin b) = 1 \<and> total_personnel (besoin_apres_midi b) = 1)
      \<and> (ci = 300 \<and> co = 300 \<and> jour = Samedi \<longrightarrow>
           total_personnel (besoin_matin b) = 4 \<and> total_personnel (besoin_apres_midi b) = 4)"
  by (simp add: Let_def calculer_besoins_personnel_def besoins_du_jour_def
      np_ceil_div_ceiling [symmetric] clients_per_receptionist_def max_receptionists_per_shift_def)
   (simp add: np_ceil_div_def)

theorem C3_witness:
  "total_personnel (besoin_matin
      (calculer_besoins_personnel equipe [Lundi \<mapsto> 0] [Lundi \<mapsto> 0] Lundi)) = 1
   \<and> total_personnel (besoin_apres_midi
      (calculer_besoins_personnel equipe [Lundi \<mapsto> 0] [Lundi \<mapsto> 0] Lundi)) = 1
   \<and> total_personnel (besoin_matin
      (calculer_besoins_personnel equipe [Samedi \<mapsto> 300] [Samedi \<mapsto> 300] Samedi)) = 4
   \<and> total_personnel (besoin_apres_midi
      (calculer_besoins_personnel equipe [Samedi \<mapsto> 300] [Samedi \<mapsto> 300] Samedi)) = 4
   \<and> total_personnel (besoin_matin
      (calculer_besoins_personnel equipe [Mardi \<mapsto> 120] [Mardi \<mapsto> 180] Mardi)) = 3
   \<and> total_personnel (besoin_apres_midi
      (calculer_besoins_personnel equipe [Mardi \<mapsto> 120] [Mardi \<mapsto> 180] Mardi)) = 3"
  using C3_besoins_formule [of "[Lundi \<mapsto> 0]" Lundi "[Lundi \<mapsto> 0]" equipe]
    C3_besoins_formule [of "[Samedi \<mapsto> 300]" Samedi "[Samedi \<mapsto> 300]" equipe]
    C3_besoins_formule [of "[Mardi \<mapsto> 120]" Mardi "[Mardi \<mapsto> 180]" equipe]
  by (simp add: Let_def dict_get_def)

text \<open>
  Claim C4. For every roster, with the available employees counted from the roster
  itself (supervisors; receptionists on another contract than the night one;
  receptionists on the night contract; concierges), \<open>verifier_faisabilite_planning\<close>
  returns \<open>faisable\<close> false exactly when there is no available supervisor, or fewer than
  two available night receptionists, or fewer than three available supervisors and day
  receptionists together. Each of the four blocking messages is in the problem list
  exactly under its condition. The two advisory messages (a single available
  supervisor, no available concierge) appear among the recommendations exactly under
  their condition, the recommendations hold nothing else, and they never appear among
  the problems.
\<close>

theorem C4_faisabilite:
  "let n_sup = length (filter (\<lambda>e. disponible e \<and> role e = ''superviseur'') (employees sys));
       n_jour = length (filter (\<lambda>e. disponible e \<and> role e = ''receptionniste''
                          \<and> type_contrat e \<noteq> ''nuit'') (employees sys));
       n_nuit = length (filter (\<lambda>e. disponible e \<and> role e = ''receptionniste''
                          \<and> type_contrat e = ''nuit'') (employees sys));
       n_conc = length (filter (\<lambda>e. disponible e \<and> role e = ''concierge'') (employees sys));
       r = verifier_faisabilite_planning sys
   in (faisable r \<longleftrightarrow> \<not> (n_sup = 0 \<or> n_nuit < 2 \<or> n_sup + n_jour < 3))
      \<and> (Aucun_superviseur \<in> set (problemes r) \<longleftrightarrow> n_sup = 0)
      \<and> (Aucun_receptionniste_nuit \<in> set (problemes r) \<longleftrightarrow> n_nuit = 0)
      \<and> (Un_seul_receptionniste_nuit \<in> set (problemes r) \<longleftrightarrow> n_nuit = 1)
      \<and> (Personnel_jour_insuffisant \<in> set (problemes r) \<longleftrightarrow> n_sup + n_jour < 3)
      \<and> (Un_seul_superviseur \<in> set (recommandations r) \<longleftrightarrow> n_sup = 1)
      \<and> (Concierge_indisponible \<in> set (recommandations r) \<longleftrightarrow> n_conc = 0)
      \<and> set (recommandations r) \<subseteq> {Un_seul_superviseur, Concierge_indisponible}
      \<and> set (problemes r) \<inter> {Un_seul_superviseur, Concierge_indisponible} = {}"
proof -
  define n_sup where
    "n_sup = length (filter (\<lambda>e. disponible e \<and> role e = ''superviseur'') (employees sys))"
  define n_jour where
    "n_jour = length (filter (\<lambda>e. disponible e \<and> role e = ''receptionniste''
                          \<and> type_contrat e \<noteq> ''nuit'') (employees sys))"
  define n_nuit where
    "n_nuit = length (filter (\<lambda>e. disponible e \<and> role e = ''receptionniste''
                          \<and> type_contrat e = ''nuit'') (employees sys))"
  define n_conc where
    "n_conc = length (filter (\<lambda>e. disponible e \<and> role e = ''concierge'') (employees sys))"
  define r where "r = verifier_faisabilite_planning sys"
  have p: "problemes r =
      (if n_sup < 1 then [Aucun_superviseur] else [])
      @ (if n_nuit < 2
         then (if n_nuit = 0 then [Aucun_receptionniste_nuit] else [Un_seul_receptionniste_nuit])
         else [])
      @ (if n_sup + n_jour < 3 then [Personnel_jour_insuffisant] else [])"
    by (simp add: r_def verifier_faisabilite_planning_def Let_def pools_explicites
        n_sup_def n_jour_def n_nuit_def)
  have q: "recommandations r =
      (if n_sup < 1 then [] else if n_sup < 2 then [Un_seul_superviseur] else [])
      @ (if n_conc = 0 then [Concierge_indisponible] else [])"
    by (simp add: r_def verifier_faisabilite_planning_def Let_def pools_explicites
        n_sup_def n_conc_def)
  have f: "faisable r \<longleftrightarrow> problemes r = []"
    by (simp add: r_def verifier_faisabilite_planning_def Let_def)
  have c1: "faisable r \<longleftrightarrow> \<not> (n_sup = 0 \<or> n_nuit < 2 \<or> n_sup + n_jour < 3)"
    unfolding f p by auto
  have c2: "Aucun_superviseur \<in> set (problemes r) \<longleftrightarrow> n_sup = 0"
    unfolding p by auto
  have c3: "Aucun_receptionniste_nuit \<in> set (problemes r) \<longleftrightarrow> n_nuit = 0"
    unfolding p by auto
  have c4: "Un_seul_receptionniste_nuit \<in> set (problemes r) \<longleftrightarrow> n_nuit = 1"
    unfolding p by auto
  have c5: "Personnel_jour_insuffisant \<in> set (problemes r) \<longleftrightarrow> n_sup + n_jour < 3"
    unfolding p by auto
  have c6: "Un_seul_superviseur \<in> set (recommandations r) \<longleftrightarrow> n_sup = 1"
    unfolding q by auto
  have c7: "Concierge_indisponible \<in> set (recommandations r) \<longleftrightarrow> n_conc = 0"
    unfolding q by auto
  have c8: "set (recommandations r) \<subseteq> {Un_seul_superviseur, Concierge_indisponible}"
    unfolding q by auto
  have c9: "set (problemes r) \<inter> {Un_seul_superviseur, Concierge_indisponible} = {}"
    unfolding p by auto
  show ?thesis
    unfolding Let_def n_sup_def [symmetric] n_jour_def [symmetric] n_nuit_def [symmetric]
      n_conc_def [symmetric] r_def [symmetric]
    by (intro conjI c1 c2 c3 c4 c5 c6 c7 c8 c9)
qed

text \<open>
  The example roster is feasible with one warning. Without its day receptionist and
  with two supervisors it is not, and with her it is: the day receptionists decide.
  With one night receptionist it is not. With an available concierge there is no
  warning. A roster of one supervisor and one night receptionist carries both warnings.
\<close>

theorem C4_witness:
  "faisable (verifier_faisabilite_planning equipe)
   \<and> recommandations (verifier_faisabilite_planning equipe) = [Concierge_indisponible]
   \<and> \<not> faisable (verifier_faisabilite_planning equipe_sans_jour)
   \<and> problemes (verifier_faisabilite_planning equipe_sans_jour) = [Personnel_jour_insuffisant]
   \<and> faisable (verifier_faisabilite_planning equipe_avec_jour)
   \<and> \<not> faisable (verifier_faisabilite_planning equipe_une_nuit)
   \<and> problemes (verifier_faisabilite_planning equipe_une_nuit) = [Un_seul_receptionniste_nuit]
   \<and> faisable (verifier_faisabilite_planning equipe_avec_concierge)
   \<and> recommandations (verifier_faisabilite_planning equipe_avec_concierge) = []
   \<and> \<not> faisable (verifier_faisabilite_planning equipe_reduite)
   \<and> recommandations (verifier_faisabilite_planning equipe_reduite)
        = [Un_seul_superviseur, Concierge_indisponible]"
  using C4_faisabilite [of equipe] C4_faisabilite [of equipe_sans_jour]
    C4_faisabilite [of equipe_avec_jour] C4_faisabilite [of equipe_une_nuit]
    C4_faisabilite [of equipe_avec_concierge] C4_faisabilite [of equipe_reduite]
  by (simp add: verifier_faisabilite_planning_def Let_def pools_explicites equipe_employes
      equipe_sans_jour_def equipe_avec_jour_def equipe_une_nuit_def equipe_avec_concierge_def
      equipe_reduite_def equipe_champs)

text \<open>
  Claim C5. For every day the night requirement is the minimum of 2 and the number of
  available night receptionists. The constraint set holds, for every employee of the
  roster who is not an available night receptionist, the constraint that fixes the
  night variable of that day to 0, and, when the requirement is positive, the
  constraint that the night variables of the available night receptionists sum to the
  requirement. Every valuation that satisfies the constraint set therefore has both
  properties.
\<close>

theorem C5_nuit_exclusive:
  "let besoins = calculer_besoins_personnel sys checkins checkouts;
       cs = ajouter_contraintes sys besoins;
       requis = receptionists (besoin_nuit (besoins jour));
       nuit_dispo = receptionnistes_nuit_dispo sys
   in requis = min 2 (int (length nuit_dispo))
      \<and> (\<forall>emp \<in> set (employees sys).
            \<not> (disponible emp \<and> role emp = ''receptionniste'' \<and> type_contrat emp = ''nuit'')
            \<longrightarrow> Contrainte [x_var emp jour Nuit] Egal 0 \<in> set cs)
      \<and> (requis > 0 \<longrightarrow>
            Contrainte (map (\<lambda>e. x_var e jour Nuit) nuit_dispo) Egal requis \<in> set cs)
      \<and> (\<forall>x. satisfait_toutes x cs \<longrightarrow>
            (\<forall>emp \<in> set (employees sys).
               \<not> (disponible emp \<and> role emp = ''receptionniste'' \<and> type_contrat emp = ''nuit'')
               \<longrightarrow> \<not> x (x_var emp jour Nuit))
            \<and> (requis > 0 \<longrightarrow> somme x (map (\<lambda>e. x_var e jour Nuit) nuit_dispo) = requis))"
proof -
  define besoins where "besoins = calculer_besoins_personnel sys checkins checkouts"
  define cs where "cs = ajouter_contraintes sys besoins"
  define requis where "requis = receptionists (besoin_nuit (besoins jour))"
  define nuit_dispo where "nuit_dispo = receptionnistes_nuit_dispo sys"
  have r: "requis = min 2 (int (length nuit_dispo))"
    by (simp add: requis_def besoins_def nuit_dispo_def besoin_nuit_calcule)
  have a: "Contrainte [x_var emp jour Nuit] Egal 0 \<in> set cs"
    if "emp \<in> set (employees sys)"
      "\<not> (disponible emp \<and> role emp = ''receptionniste'' \<and> type_contrat emp = ''nuit'')"
    for emp
    unfolding cs_def using that by (rule nuit_autres_force)
  have b: "Contrainte (map (\<lambda>e. x_var e jour Nuit) nuit_dispo) Egal requis \<in> set cs"
    if "requis > 0"
  proof -
    have m: "min (receptionists (besoin_nuit (besoins jour)))
               (int (length (receptionnistes_nuit_dispo sys))) = requis"
      using r by (simp add: requis_def nuit_dispo_def)
    show ?thesis
      using nuit_somme_requise [of besoins jour sys] that
      unfolding m cs_def nuit_dispo_def by simp
  qed
  have c: "\<not> x (x_var emp jour Nuit)"
    if "satisfait_toutes x cs" "emp \<in> set (employees sys)"
      "\<not> (disponible emp \<and> role emp = ''receptionniste'' \<and> type_contrat emp = ''nuit'')"
    for x emp
  proof -
    have "satisfait x (Contrainte [x_var emp jour Nuit] Egal 0)"
      using a [OF that(2,3)] that(1) unfolding satisfait_toutes_iff by blast
    then show "\<not> x (x_var emp jour Nuit)"
      by (simp add: somme_def valeur_def split: if_splits)
  qed
  have d: "somme x (map (\<lambda>e. x_var e jour Nuit) nuit_dispo) = requis"
    if "satisfait_toutes x cs" "requis > 0" for x
  proof -
    have "satisfait x (Contrainte (map (\<lambda>e. x_var e jour Nuit) nuit_dispo) Egal requis)"
      using b [OF that(2)] that(1) unfolding satisfait_toutes_iff by blast
    then show "somme x (map (\<lambda>e. x_var e jour Nuit) nuit_dispo) = requis" by simp
  qed
  show ?thesis
    using r a b c d
    unfolding Let_def besoins_def [symmetric] cs_def [symmetric] requis_def [symmetric]
      nuit_dispo_def [symmetric]
    by blast
qed

theorem C5_witness:
  "receptionists (besoin_nuit (calculer_besoins_personnel equipe semaine_calme semaine_calme Lundi)) = 2
   \<and> sophie \<in> set (employees equipe)
   \<and> \<not> (disponible sophie \<and> role sophie = ''receptionniste'' \<and> type_contrat sophie = ''nuit'')
   \<and> Contrainte [x_var sophie Lundi Nuit] Egal 0
        \<in> set (ajouter_contraintes equipe
                 (calculer_besoins_personnel equipe semaine_calme semaine_calme))
   \<and> Contrainte (map (\<lambda>e. x_var e Lundi Nuit) [hugo, nina, omar]) Egal 2
        \<in> set (ajouter_contraintes equipe
                 (calculer_besoins_personnel equipe semaine_calme semaine_calme))
   \<and> satisfait_toutes affectations
        (ajouter_contraintes equipe (calculer_besoins_personnel equipe semaine_calme semaine_calme))
   \<and> \<not> affectations (x_var sophie Lundi Nuit)
   \<and> somme affectations (map (\<lambda>e. x_var e Lundi Nuit) [hugo, nina, omar]) = 2"
proof -
  have h1: "sophie \<in> set (employees equipe)" by (simp add: equipe_def)
  have h2: "\<not> (disponible sophie \<and> role sophie = ''receptionniste''
      \<and> type_contrat sophie = ''nuit'')"
    by (simp add: equipe_champs)
  have h3: "receptionists (besoin_nuit
      (calculer_besoins_personnel equipe semaine_calme semaine_calme Lundi)) = 2"
    by (rule besoins_calmes)
  have h4: "0 < receptionists (besoin_nuit
      (calculer_besoins_personnel equipe semaine_calme semaine_calme Lundi))"
    by (simp only: h3)
  note t = C5_nuit_exclusive [of equipe semaine_calme semaine_calme Lundi, unfolded Let_def]
  note tb = t [THEN conjunct2, THEN conjunct1, rule_format, OF h1 h2]
  note tc = t [THEN conjunct2, THEN conjunct2, THEN conjunct1, rule_format, OF h4,
      unfolded h3 equipe_pools]
  note td = t [THEN conjunct2, THEN conjunct2, THEN conjunct2, rule_format, OF equipe_sat]
  note c = td [THEN conjunct1, rule_format, OF h1 h2]
  note d = td [THEN conjunct2, rule_format, OF h4, unfolded h3 equipe_pools]
  show ?thesis
    by (intro conjI h1 h2 h3 tb tc c d equipe_sat)
qed

text \<open>
  Claim C6. The two windows of six consecutive days are Monday to Saturday and Tuesday
  to Sunday. For every available employee the constraint set bounds the sum of the
  variables of each window by 5. Hence, for every employee of the roster and every
  valuation that satisfies the constraint set, the employee has at most 5 assigned
  shifts, and works on at most 5 days, in each window.
\<close>

theorem C6_jours_consecutifs:
  assumes "emp \<in> set (employees sys)"
  shows "fenetre 0 = [Lundi, Mardi, Mercredi, Jeudi, Vendredi, Samedi]
       \<and> fenetre 1 = [Mardi, Mercredi, Jeudi, Vendredi, Samedi, Dimanche]
       \<and> (disponible emp \<longrightarrow>
            (\<forall>i < 2. Contrainte (variables_fenetre emp i) Inferieur_egal 5
                       \<in> set (ajouter_contraintes sys besoins)))
       \<and> (\<forall>x. satisfait_toutes x (ajouter_contraintes sys besoins) \<longrightarrow>
            (\<forall>i < 2. somme x (variables_fenetre emp i) \<le> 5
               \<and> int (length (filter (\<lambda>j. \<exists>s. x (x_var emp j s)) (fenetre i))) \<le> 5))"
proof -
  have f: "fenetre 0 = [Lundi, Mardi, Mercredi, Jeudi, Vendredi, Samedi]"
    "fenetre 1 = [Mardi, Mercredi, Jeudi, Vendredi, Samedi, Dimanche]"
    by (simp_all add: fenetre_def jours_de_la_semaine_def)
  have m: "Contrainte (variables_fenetre emp i) Inferieur_egal 5
             \<in> set (ajouter_contraintes sys besoins)"
    if "disponible emp" "i < 2" for i
    using assms that by (rule fenetre_dans_contraintes)
  have s: "somme x (variables_fenetre emp i) \<le> 5"
    if sat: "satisfait_toutes x (ajouter_contraintes sys besoins)" and i: "i < 2" for x i
  proof (cases "disponible emp")
    case True
    have "satisfait x (Contrainte (variables_fenetre emp i) Inferieur_egal 5)"
      using m [OF True i] sat unfolding satisfait_toutes_iff by blast
    then show ?thesis by simp
  next
    case False
    have "\<not> x (x_var emp j sh)" for j sh
    proof -
      have "satisfait x (Contrainte [x_var emp j sh] Egal 0)"
        using indisponible_dans_contraintes [OF assms False, of j sh besoins] sat
        unfolding satisfait_toutes_iff by blast
      then show ?thesis by (simp add: somme_def valeur_def split: if_splits)
    qed
    then have "somme x (variables_fenetre emp i) = 0"
      by (intro somme_nulle) (auto simp add: variables_fenetre_def)
    then show ?thesis by simp
  qed
  have d: "int (length (filter (\<lambda>j. \<exists>s. x (x_var emp j s)) (fenetre i))) \<le> 5"
    if sat: "satisfait_toutes x (ajouter_contraintes sys besoins)" and i: "i < 2" for x i
  proof -
    have "int (length (filter (\<lambda>j. \<exists>s. x (x_var emp j s)) (fenetre i)))
        \<le> somme x (variables_fenetre emp i)"
      unfolding x_var_def variables_fenetre_def by (rule jours_travailles_le_somme)
    with s [OF sat i] show ?thesis by linarith
  qed
  show ?thesis using f m s d by blast
qed

text \<open>Validation of a weekday morning without concierge.\<close>

theorem C6_witness:
  "sophie \<in> set (employees equipe)
   \<and> disponible sophie
   \<and> Contrainte (variables_fenetre sophie 1) Inferieur_egal 5
        \<in> set (ajouter_contraintes equipe
                 (calculer_besoins_personnel equipe semaine_calme semaine_calme))
   \<and> satisfait_toutes affectations
        (ajouter_contraintes equipe (calculer_besoins_personnel equipe semaine_calme semaine_calme))
   \<and> somme affectations (variables_fenetre sophie 1) \<le> 5
   \<and> int (length (filter (\<lambda>j. \<exists>s. affectations (x_var sophie j s)) (fenetre 1))) \<le> 5
   \<and> somme affectations (variables_fenetre sophie 1) = 5"
proof -
  have h1: "sophie \<in> set (employees equipe)" by (simp add: equipe_def)
  have h2: "disponible sophie" by (simp add: equipe_champs)
  have h3: "(1::nat) < 2" by simp
  note t = C6_jours_consecutifs [OF h1,
      of "calculer_besoins_personnel equipe semaine_calme semaine_calme"]
  have e: "somme affectations (variables_fenetre sophie 1) = 5"
    by (simp add: variables_fenetre_def fenetre_def jours_de_la_semaine_def les_shifts_def
        x_var_def equipe_champs somme_def valeur_def affectations_simps)
  from t h2 h3 have a: "Contrainte (variables_fenetre sophie 1) Inferieur_egal 5
      \<in> set (ajouter_contraintes equipe
               (calculer_besoins_personnel equipe semaine_calme semaine_calme))"
    by blast
  from t equipe_sat h3 have b: "somme affectations (variables_fenetre sophie 1) \<le> 5
      \<and> int (length (filter (\<lambda>j. \<exists>s. affectations (x_var sophie j s)) (fenetre 1))) \<le> 5"
    by blast
  show ?thesis using h1 h2 a b e equipe_sat by blast
qed

text \<open>
  Claim C7, as amended. A forecast that misses one of the seven day names, or holds a
  negative count, is not rejected on that account. \<open>generer_planning_optimise\<close> ends in
  an error only when the float division of a count overflows or when the solver itself
  fails; otherwise it computes the requirements, hands the problem to the solver and
  returns the planning extracted from the values the solver gives. A day missing from a
  forecast has the same outcome as that day with the count 0, and a count that is zero
  or negative gives the total 1 for the shift it feeds.
\<close>

theorem C7_previsions_acceptees:
  "(generer_planning_optimise solve sys checkins checkouts = Inl e \<longleftrightarrow>
      (previsions_debordent checkins checkouts \<and> e = OverflowError)
      \<or> (\<not> previsions_debordent checkins checkouts
          \<and> solve (construire_probleme sys
                (calculer_besoins_personnel sys checkins checkouts)) = Inl e))
   \<and> (\<not> previsions_debordent checkins checkouts
        \<and> solve (construire_probleme sys
              (calculer_besoins_personnel sys checkins checkouts)) = Inr x
        \<longrightarrow> generer_planning_optimise solve sys checkins checkouts
              = Inr (extraire_planning sys x))
   \<and> (checkins jour = None \<longrightarrow>
        generer_planning_optimise solve sys checkins checkouts
          = generer_planning_optimise solve sys (checkins(jour \<mapsto> 0)) checkouts)
   \<and> (checkouts jour = None \<longrightarrow>
        generer_planning_optimise solve sys checkins checkouts
          = generer_planning_optimise solve sys checkins (checkouts(jour \<mapsto> 0)))
   \<and> (dict_get checkouts jour 0 \<le> 0 \<longrightarrow>
        total_personnel (besoin_matin (calculer_besoins_personnel sys checkins checkouts jour))
          = 1)
   \<and> (dict_get checkins jour 0 \<le> 0 \<longrightarrow>
        total_personnel
          (besoin_apres_midi (calculer_besoins_personnel sys checkins checkouts jour)) = 1)"
proof -
  have n: "np_ceil_div a 50 \<le> 0" if "a \<le> 0" for a
    using that by (simp add: np_ceil_div_def)
  have m: "total_personnel (besoin_matin (calculer_besoins_personnel sys checkins checkouts jour))
      = 1"
    if "dict_get checkouts jour 0 \<le> 0"
    using n [OF that]
    by (simp add: calculer_besoins_personnel_def besoins_du_jour_def Let_def
        clients_per_receptionist_def max_receptionists_per_shift_def)
  have a: "total_personnel
      (besoin_apres_midi (calculer_besoins_personnel sys checkins checkouts jour)) = 1"
    if "dict_get checkins jour 0 \<le> 0"
    using n [OF that]
    by (simp add: calculer_besoins_personnel_def besoins_du_jour_def Let_def
        clients_per_receptionist_def max_receptionists_per_shift_def)
  have g: "generer_planning_optimise solve sys checkins checkouts = Inl e \<longleftrightarrow>
      (previsions_debordent checkins checkouts \<and> e = OverflowError)
      \<or> (\<not> previsions_debordent checkins checkouts
          \<and> solve (construire_probleme sys
                (calculer_besoins_personnel sys checkins checkouts)) = Inl e)"
    by (auto simp add: generer_planning_optimise_def appel_calculer_besoins_personnel_def
        split: sum.splits)
  have r: "generer_planning_optimise solve sys checkins checkouts
      = Inr (extraire_planning sys x)"
    if "\<not> previsions_debordent checkins checkouts"
      "solve (construire_probleme sys
         (calculer_besoins_personnel sys checkins checkouts)) = Inr x"
    using that
    by (simp add: generer_planning_optimise_def appel_calculer_besoins_personnel_def)
  have i: "generer_planning_optimise solve sys checkins checkouts
      = generer_planning_optimise solve sys (checkins(jour \<mapsto> 0)) checkouts"
    if "checkins jour = None"
    using that by (simp add: generer_jour_manquant(1))
  have o: "generer_planning_optimise solve sys checkins checkouts
      = generer_planning_optimise solve sys checkins (checkouts(jour \<mapsto> 0))"
    if "checkouts jour = None"
    using that by (simp add: generer_jour_manquant(2))
  show ?thesis
    using g r i o m a by (intro conjI impI) simp_all
qed

text \<open>
  At the example roster, with Monday missing from the check-ins and a negative count of
  check-outs on Tuesday: the call returns the planning of the values the solver gives,
  as it does with Monday filled in with 0; it ends in the error of the solver when the
  solver fails, and in the overflow of the division when a count is beyond the floats.
\<close>

theorem C7_witness:
  "semaine_sans_lundi Lundi = None
   \<and> dict_get semaine_negative Mardi 0 \<le> 0
   \<and> \<not> previsions_debordent semaine_sans_lundi semaine_negative
   \<and> generer_planning_optimise solveur_exemple equipe semaine_sans_lundi semaine_negative
       = Inr (extraire_planning equipe affectations)
   \<and> generer_planning_optimise solveur_exemple equipe (semaine_sans_lundi(Lundi \<mapsto> 0))
         semaine_negative
       = Inr (extraire_planning equipe affectations)
   \<and> total_personnel (besoin_matin
        (calculer_besoins_personnel equipe semaine_sans_lundi semaine_negative Mardi)) = 1
   \<and> generer_planning_optimise solveur_en_panne equipe semaine_sans_lundi semaine_negative
       = Inl PulpSolverError
   \<and> previsions_debordent semaine_demesuree semaine_calme
   \<and> generer_planning_optimise solveur_exemple equipe semaine_demesuree semaine_calme
       = Inl OverflowError"
proof -
  have h1: "semaine_sans_lundi Lundi = None"
    by (simp add: semaine_sans_lundi_def)
  have h2: "dict_get semaine_negative Mardi 0 \<le> 0"
    by (simp add: dict_get_def semaine_negative_def)
  note h3 = exemples_debordement(1)
  note h4 = exemples_debordement(2)
  have s: "solveur_exemple (construire_probleme equipe
      (calculer_besoins_personnel equipe semaine_sans_lundi semaine_negative)) = Inr affectations"
    by (simp add: solveur_exemple_def)
  have p: "solveur_en_panne (construire_probleme equipe
      (calculer_besoins_personnel equipe semaine_sans_lundi semaine_negative))
      = Inl PulpSolverError"
    by (simp add: solveur_en_panne_def)
  note t = C7_previsions_acceptees
    [of solveur_exemple equipe semaine_sans_lundi semaine_negative _ affectations]
  note g = t [THEN conjunct2, THEN conjunct1, rule_format, OF conjI, OF h3 s]
  note a = t [of _ Lundi, THEN conjunct2, THEN conjunct2, THEN conjunct1, rule_format, OF h1]
  note b = t [of _ Mardi, THEN conjunct2, THEN conjunct2, THEN conjunct2, THEN conjunct2,
      THEN conjunct1, rule_format, OF h2]
  have g0: "generer_planning_optimise solveur_exemple equipe (semaine_sans_lundi(Lundi \<mapsto> 0))
      semaine_negative = Inr (extraire_planning equipe affectations)"
    using a g by simp
  have e1: "generer_planning_optimise solveur_en_panne equipe semaine_sans_lundi
      semaine_negative = Inl PulpSolverError"
    using C7_previsions_acceptees
      [of solveur_en_panne equipe semaine_sans_lundi semaine_negative PulpSolverError,
        THEN conjunct1] h3 p
    by simp
  have e2: "generer_planning_optimise solveur_exemple equipe semaine_demesuree semaine_calme
      = Inl OverflowError"
    using C7_previsions_acceptees
      [of solveur_exemple equipe semaine_demesuree semaine_calme OverflowError,
        THEN conjunct1] h4
    by simp
  show ?thesis
    by (intro conjI h1 h2 h3 g g0 b e1 h4 e2)
qed

text \<open>
  The claim as stated fails: with Monday missing from the check-ins and a negative count
  of check-outs on Tuesday the call does not end in an error; it computes the
  requirements (the total 1 for the shifts these counts feed), hands the constraint set
  to the solver and returns the planning extracted from values that satisfy every
  constraint.
\<close>

theorem C7_counterexample:
  "semaine_sans_lundi Lundi = None
   \<and> semaine_negative Mardi = Some (- 5)
   \<and> generer_planning_optimise solveur_exemple equipe semaine_sans_lundi semaine_negative
       = Inr (extraire_planning equipe affectations)
   \<and> satisfait_toutes affectations
       (contraintes (construire_probleme equipe
          (calculer_besoins_personnel equipe semaine_sans_lundi semaine_negative)))
   \<and> total_personnel (besoin_apres_midi
        (calculer_besoins_personnel equipe semaine_sans_lundi semaine_negative Lundi)) = 1
   \<and> total_personnel (besoin_matin
        (calculer_besoins_personnel equipe semaine_sans_lundi semaine_negative Mardi)) = 1"
proof -
  have a: "semaine_sans_lundi Lundi = None"
    by (simp add: semaine_sans_lundi_def)
  have b: "semaine_negative Mardi = Some (- 5)"
    by (simp add: semaine_negative_def)
  have g: "generer_planning_optimise solveur_exemple equipe semaine_sans_lundi semaine_negative
      = Inr (extraire_planning equipe affectations)"
    by (simp add: generer_planning_optimise_def appel_calculer_besoins_personnel_def
        exemples_debordement solveur_exemple_def)
  have s: "satisfait_toutes affectations
      (contraintes (construire_probleme equipe
         (calculer_besoins_personnel equipe semaine_sans_lundi semaine_negative)))"
    using equipe_sat
    by (simp add: construire_probleme_def besoins_semaine_incomplete)
  have t: "total_personnel (besoin_apres_midi
        (calculer_besoins_personnel equipe semaine_sans_lundi semaine_negative Lundi)) = 1"
    "total_personnel (besoin_matin
        (calculer_besoins_personnel equipe semaine_sans_lundi semaine_negative Mardi)) = 1"
    by (simp_all add: besoins_semaine_incomplete besoins_calmes)
  show ?thesis
    by (intro conjI a b g s t)
qed

text \<open>
  Claim C8. For every employee, \<open>jours_travail_max_semaine\<close> is 0 when the employee is
  unavailable or absent for 7 days or more, and otherwise the contractual days minus
  the days of absence, not below 0.
\<close>

theorem C8_jours_travail_max_semaine:
  "jours_travail_max_semaine e =
     (if \<not> disponible e \<or> jours_absence e \<ge> 7 then 0
      else max 0 (jours_semaine e - jours_absence e))"
  by (simp add: jours_travail_max_semaine_def)

theorem C8_witness:
  "jours_travail_max_semaine emma = 1
   \<and> jours_travail_max_semaine carl = 0
   \<and> jours_travail_max_semaine (emma\<lparr>jours_absence := 7\<rparr>) = 0
   \<and> jours_travail_max_semaine (emma\<lparr>jours_absence := 5\<rparr>) = 0"
  using C8_jours_travail_max_semaine [of emma] C8_jours_travail_max_semaine [of carl]
    C8_jours_travail_max_semaine [of "emma\<lparr>jours_absence := 7\<rparr>"]
    C8_jours_travail_max_semaine [of "emma\<lparr>jours_absence := 5\<rparr>"]
  by (simp add: equipe_defs)

text \<open>
  Claim C9, as amended. Employees are identified by first name alone: two employees of
  the roster with the same first name read the same decision variables and are
  extracted into the same shifts, and an employee counts as working a shift whenever an
  assigned person has the same first name. Hence \<open>analyser_planning\<close> computes the same
  worked days, hours and shifts for both. The flag \<open>respect_contrat\<close> compares the worked
  days with the contractual days of each employee: it is the same for both when their
  contractual days are equal. When no two employees share the key "first name, space,
  last name", the report holds these values under the key of each.
\<close>

theorem C9_homonymes:
  assumes "e1 \<in> set (employees sys)"
    and "e2 \<in> set (employees sys)"
    and "prenom e1 = prenom e2"
  shows "x_var e1 jour shift = x_var e2 jour shift
       \<and> (\<lparr>aff_prenom = prenom e1, aff_nom = nom e1, aff_role = role e1,
            aff_type_contrat = type_contrat e1\<rparr> \<in> set (extraire_planning sys x jour shift)
          \<longleftrightarrow> \<lparr>aff_prenom = prenom e2, aff_nom = nom e2, aff_role = role e2,
            aff_type_contrat = type_contrat e2\<rparr> \<in> set (extraire_planning sys x jour shift))
       \<and> (travaille planning (prenom e1) jour shift
          \<longleftrightarrow> (\<exists>a \<in> set (planning jour shift). aff_prenom a = prenom e2))
       \<and> heures (stats_de_employe planning e1) = heures (stats_de_employe planning e2)
       \<and> jours_travailles (stats_de_employe planning e1)
           = jours_travailles (stats_de_employe planning e2)
       \<and> shifts (stats_de_employe planning e1) = shifts (stats_de_employe planning e2)
       \<and> (jours_semaine e1 = jours_semaine e2 \<longrightarrow>
            respect_contrat (stats_de_employe planning e1)
              = respect_contrat (stats_de_employe planning e2))
       \<and> (distinct (map cle_employe (employees sys)) \<longrightarrow>
            rapport_employe (analyser_planning sys planning) e1
              = Some (stats_de_employe planning e1)
            \<and> rapport_employe (analyser_planning sys planning) e2
              = Some (stats_de_employe planning e2))"
proof -
  have a: "x_var e1 jour shift = x_var e2 jour shift"
    using assms(3) by (simp add: x_var_def)
  have m: "\<lparr>aff_prenom = prenom e, aff_nom = nom e, aff_role = role e,
        aff_type_contrat = type_contrat e\<rparr> \<in> set (extraire_planning sys x jour shift)
      \<longleftrightarrow> x (prenom e, jour, shift)"
    if "e \<in> set (employees sys)" for e
    using that by (auto simp add: extraire_planning_def x_var_def)
  have b: "\<lparr>aff_prenom = prenom e1, aff_nom = nom e1, aff_role = role e1,
        aff_type_contrat = type_contrat e1\<rparr> \<in> set (extraire_planning sys x jour shift)
      \<longleftrightarrow> \<lparr>aff_prenom = prenom e2, aff_nom = nom e2, aff_role = role e2,
        aff_type_contrat = type_contrat e2\<rparr> \<in> set (extraire_planning sys x jour shift)"
    using m [OF assms(1)] m [OF assms(2)] assms(3) by simp
  have c: "travaille planning (prenom e1) jour shift
      \<longleftrightarrow> (\<exists>a \<in> set (planning jour shift). aff_prenom a = prenom e2)"
    using assms(3) by (simp add: travaille_iff)
  have d: "heures (stats_de_employe planning e1) = heures (stats_de_employe planning e2)"
    "jours_travailles (stats_de_employe planning e1)
       = jours_travailles (stats_de_employe planning e2)"
    "shifts (stats_de_employe planning e1) = shifts (stats_de_employe planning e2)"
    using assms(3) by (simp_all add: stats_de_employe_def)
  have e: "respect_contrat (stats_de_employe planning e1)
      = respect_contrat (stats_de_employe planning e2)"
    if "jours_semaine e1 = jours_semaine e2"
    using that assms(3) by (simp add: stats_de_employe_def)
  have f: "rapport_employe (analyser_planning sys planning) e1
        = Some (stats_de_employe planning e1)
      \<and> rapport_employe (analyser_planning sys planning) e2
        = Some (stats_de_employe planning e2)"
    if "distinct (map cle_employe (employees sys))"
    using rapport_employe_distinct [OF that assms(1)] rapport_employe_distinct [OF that assms(2)]
    by simp
  show ?thesis
    using a b c d e f by (intro conjI impI) simp_all
qed

theorem C9_witness:
  "alex_dupont \<in> set (employees equipe_homonymes)
   \<and> alex_martin \<in> set (employees equipe_homonymes)
   \<and> prenom alex_dupont = prenom alex_martin
   \<and> alex_dupont \<noteq> alex_martin
   \<and> distinct (map cle_employe (employees equipe_homonymes))
   \<and> map_option heures
        (rapport_employe (analyser_planning equipe_homonymes planning_homonymes) alex_dupont)
        = Some 32
   \<and> map_option heures
        (rapport_employe (analyser_planning equipe_homonymes planning_homonymes) alex_martin)
        = Some 32
   \<and> map_option jours_travailles
        (rapport_employe (analyser_planning equipe_homonymes planning_homonymes) alex_dupont)
        = Some 4
   \<and> map_option jours_travailles
        (rapport_employe (analyser_planning equipe_homonymes planning_homonymes) alex_martin)
        = Some 4"
proof -
  have h1: "alex_dupont \<in> set (employees equipe_homonymes)"
    and h2: "alex_martin \<in> set (employees equipe_homonymes)"
    by (simp_all add: equipe_homonymes_def)
  have h3: "prenom alex_dupont = prenom alex_martin"
    by (simp add: homonymes_champs)
  have h4: "distinct (map cle_employe (employees equipe_homonymes))"
    by (simp add: equipe_homonymes_def cle_employe_def homonymes_champs)
  have h5: "alex_dupont \<noteq> alex_martin"
    using homonymes_champs(2,5) by auto
  note t = C9_homonymes [OF h1 h2 h3, of Lundi Matin "\<lambda>v. False" planning_homonymes]
  note r = t [THEN conjunct2, THEN conjunct2, THEN conjunct2, THEN conjunct2, THEN conjunct2,
      THEN conjunct2, THEN conjunct2, rule_format, OF h4]
  have s: "heures (stats_de_employe planning_homonymes alex_dupont) = 32"
    "jours_travailles (stats_de_employe planning_homonymes alex_dupont) = 4"
    "heures (stats_de_employe planning_homonymes alex_martin) = 32"
    "jours_travailles (stats_de_employe planning_homonymes alex_martin) = 4"
    by (simp_all add: stats_de_employe_def homonymes_champs homonymes_quatre_jours)
  show ?thesis
    using h1 h2 h3 h4 h5 r s by simp
qed

text \<open>
  The claim as stated fails for the compliance flag: two staff members named Alex, one
  full time and one on a three-day contract, with Alex scheduled on four days, are both
  reported with four worked days and 32 hours, the first as respecting the contract and
  the second as not respecting it.
\<close>

theorem C9_counterexample:
  "alex_dupont \<in> set (employees equipe_homonymes)
   \<and> alex_martin \<in> set (employees equipe_homonymes)
   \<and> alex_dupont \<noteq> alex_martin
   \<and> prenom alex_dupont = prenom alex_martin
   \<and> map_option respect_contrat
        (rapport_employe (analyser_planning equipe_homonymes planning_homonymes) alex_dupont)
        = Some True
   \<and> map_option respect_contrat
        (rapport_employe (analyser_planning equipe_homonymes planning_homonymes) alex_martin)
        = Some False"
proof -
  have h1: "alex_dupont \<in> set (employees equipe_homonymes)"
    and h2: "alex_martin \<in> set (employees equipe_homonymes)"
    by (simp_all add: equipe_homonymes_def)
  have h3: "prenom alex_dupont = prenom alex_martin"
    by (simp add: homonymes_champs)
  have h4: "distinct (map cle_employe (employees equipe_homonymes))"
    by (simp add: equipe_homonymes_def cle_employe_def homonymes_champs)
  have h5: "alex_dupont \<noteq> alex_martin"
    using homonymes_champs(2,5) by auto
  have r1: "map_option respect_contrat
      (rapport_employe (analyser_planning equipe_homonymes planning_homonymes) alex_dupont)
      = Some True"
    by (simp add: rapport_employe_distinct [OF h4 h1] stats_de_employe_def homonymes_champs
        homonymes_quatre_jours)
  have r2: "map_option respect_contrat
      (rapport_employe (analyser_planning equipe_homonymes planning_homonymes) alex_martin)
      = Some False"
    by (simp add: rapport_employe_distinct [OF h4 h2] stats_de_employe_def homonymes_champs
        homonymes_quatre_jours)
  show ?thesis
    by (intro conjI h1 h2 h3 h5 r1 r2)
qed

text \<open>
  Claim C10. For every roster and every employee of it, lowering the days of absence of
  that employee does not lower the maximum of workable days of the employee, and does
  not lower any of the four counts of the feasibility check: available supervisors, day
  receptionists, night receptionists and concierges.
\<close>

theorem C10_monotonie_absence:
  assumes "i < length (employees sys)"
    and "a \<le> jours_absence (employees sys ! i)"
  shows "stat_superviseurs (stats (verifier_faisabilite_planning sys))
           \<le> stat_superviseurs (stats (verifier_faisabilite_planning (modifier_jours_absence sys i a)))
       \<and> stat_receptionnistes_jour (stats (verifier_faisabilite_planning sys))
           \<le> stat_receptionnistes_jour (stats (verifier_faisabilite_planning (modifier_jours_absence sys i a)))
       \<and> stat_receptionnistes_nuit (stats (verifier_faisabilite_planning sys))
           \<le> stat_receptionnistes_nuit (stats (verifier_faisabilite_planning (modifier_jours_absence sys i a)))
       \<and> stat_concierges (stats (verifier_faisabilite_planning sys))
           \<le> stat_concierges (stats (verifier_faisabilite_planning (modifier_jours_absence sys i a)))
       \<and> jours_travail_max_semaine (employees sys ! i)
           \<le> jours_travail_max_semaine (employees (modifier_jours_absence sys i a) ! i)"
proof -
  have "jours_travail_max_semaine (employees sys ! i)
          \<le> jours_travail_max_semaine (employees (modifier_jours_absence sys i a) ! i)"
    using assms by (simp add: modifier_jours_absence_def jours_travail_max_mono)
  then show ?thesis
    using assms(1)
    by (simp add: verifier_faisabilite_planning_def Let_def pools_modifier_jours_absence)
qed

text \<open>In the example roster the receptionist at position 3 has two days of absence;
  setting them to 0 raises the workable days from 1 to 3 and keeps the counts.\<close>

theorem C10_witness:
  "3 < length (employees equipe)
   \<and> 0 \<le> jours_absence (employees equipe ! 3)
   \<and> stat_receptionnistes_jour (stats (verifier_faisabilite_planning equipe)) = 1
   \<and> 1 \<le> stat_receptionnistes_jour
            (stats (verifier_faisabilite_planning (modifier_jours_absence equipe 3 0)))
   \<and> jours_travail_max_semaine (employees equipe ! 3) = 1
   \<and> jours_travail_max_semaine (employees (modifier_jours_absence equipe 3 0) ! 3) = 3"
proof -
  have h1: "3 < length (employees equipe)"
    by (simp add: equipe_def)
  have h2: "0 \<le> jours_absence (employees equipe ! 3)"
    by (simp add: equipe_def equipe_defs)
  have h3: "stat_receptionnistes_jour (stats (verifier_faisabilite_planning equipe)) = 1"
    by (simp add: verifier_faisabilite_planning_def Let_def equipe_pools)
  have h4: "jours_travail_max_semaine (employees equipe ! 3) = 1"
    by (simp add: equipe_def equipe_jours_max)
  have h5: "jours_travail_max_semaine (employees (modifier_jours_absence equipe 3 0) ! 3) = 3"
    by (simp add: modifier_jours_absence_def equipe_def equipe_defs
        jours_travail_max_semaine_def)
  show ?thesis
    using C10_monotonie_absence [OF h1 h2] h1 h2 h3 h4 h5 by simp
qed

end
